theory Spec2Isabelle
  imports Main "HOL-Library.Sublist" "HOL-Library.Word"
begin

section \<open>Data of the shader generator\<close>

text \<open>
  Modelled from the spec: \<^verbatim>\<open>HostDisplay::RenderAPI\<close> is declared in a header that is
  not among the sources. The spec's Backend has four values (desktop GL, embedded GL,
  Vulkan-style, D3D-style); \<^verbatim>\<open>shadergen.cpp\<close> names them \<^verbatim>\<open>OpenGL\<close>, \<^verbatim>\<open>OpenGLES\<close>,
  \<^verbatim>\<open>Vulkan\<close> and \<^verbatim>\<open>D3D11\<close>.
\<close>

datatype RenderAPI = D3D11 | Vulkan | OpenGL | OpenGLES

type_synonym u32 = "32 word"

text \<open>
  The feature-query surface the generator reads: the flags of \<^verbatim>\<open>glad.h\<close> (integers
  used as truth values) and the string that
  \<^verbatim>\<open>glGetString(GL_SHADING_LANGUAGE_VERSION)\<close> returns, \<open>None\<close> for a null pointer.
\<close>

record gl_context =
  GLAD_GL_VERSION_3_2 :: bool
  GLAD_GL_VERSION_4_2 :: bool
  GLAD_GL_VERSION_4_3 :: bool
  GLAD_GL_ES_VERSION_3_1 :: bool
  GLAD_GL_ES_VERSION_3_2 :: bool
  GLAD_GL_ARB_explicit_attrib_location :: bool
  GLAD_GL_ARB_explicit_uniform_location :: bool
  GLAD_GL_ARB_shading_language_420pack :: bool
  GLAD_GL_ARB_shader_storage_buffer_object :: bool
  GLAD_GL_EXT_blend_func_extended :: bool
  GL_SHADING_LANGUAGE_VERSION :: "string option"

text \<open>The member variables of \<^verbatim>\<open>class ShaderGen\<close>.\<close>

record shader_gen =
  m_render_api :: RenderAPI
  m_glsl :: bool
  m_supports_dual_source_blend :: bool
  m_use_glsl_interface_blocks :: bool
  m_use_glsl_binding_layout :: bool
  m_glsl_version_string :: string

text \<open>
  What stops a call: a failed \<^verbatim>\<open>Assert\<close>, and a \<^verbatim>\<open>%d\<close> conversion of \<^verbatim>\<open>sscanf\<close> whose
  value does not fit \<^verbatim>\<open>int\<close>, which C leaves undefined.
\<close>

datatype error = AssertionFailed | UndefinedConversion

section \<open>Text of numbers\<close>

definition digit_char :: "nat \<Rightarrow> char" where
  "digit_char d = ''0123456789'' ! d"

text \<open>What \<^verbatim>\<open>operator<<\<close> writes for an unsigned number: its decimal digits.\<close>

fun string_of_nat :: "nat \<Rightarrow> string" where
  "string_of_nat n =
     (if n < 10 then [digit_char n]
      else string_of_nat (n div 10) @ [digit_char (n mod 10)])"

declare string_of_nat.simps [simp del]

definition string_of_u32 :: "u32 \<Rightarrow> string" where
  "string_of_u32 w = string_of_nat (unat w)"

text \<open>\<^verbatim>\<open>BoolToUInt32\<close>, then written to the stream.\<close>

definition BoolToUInt32 :: "bool \<Rightarrow> u32" where
  "BoolToUInt32 b = (if b then 1 else 0)"

text \<open>The conversions \<^verbatim>\<open>%d\<close> and \<^verbatim>\<open>%02d\<close> of \<^verbatim>\<open>snprintf\<close>.\<close>

definition printf_d :: "int \<Rightarrow> string" where
  "printf_d v =
     (if v < 0 then CHR ''-'' # string_of_nat (nat (- v)) else string_of_nat (nat v))"

definition printf_02d :: "int \<Rightarrow> string" where
  "printf_02d v =
     (if v < 0 then CHR ''-'' # string_of_nat (nat (- v))
      else replicate (2 - length (string_of_nat (nat v))) CHR ''0'' @ string_of_nat (nat v))"

section \<open>Reading the version: \<^verbatim>\<open>sscanf(s, "%d.%d", &major, &minor)\<close>\<close>

definition isdigit :: "char \<Rightarrow> bool" where
  "isdigit c = (48 \<le> (of_char c :: nat) \<and> (of_char c :: nat) \<le> 57)"

definition isspace :: "char \<Rightarrow> bool" where
  "isspace c = ((of_char c :: nat) = 32 \<or> (9 \<le> (of_char c :: nat) \<and> (of_char c :: nat) \<le> 13))"

text \<open>A C string ends at its first NUL.\<close>

definition c_str :: "string \<Rightarrow> string" where
  "c_str s = takeWhile (\<lambda>c. (of_char c :: nat) \<noteq> 0) s"

definition decimal :: "string \<Rightarrow> nat" where
  "decimal ds = foldl (\<lambda>acc c. 10 * acc + ((of_char c :: nat) - 48)) 0 ds"

definition INT_MAX :: int where
  "INT_MAX = 2147483647"

definition INT_MIN :: int where
  "INT_MIN = - 2147483648"

text \<open>
  One \<^verbatim>\<open>%d\<close>: white space is skipped, a sign is optional, at least one digit is needed.
  The result holds the value and the input left.
\<close>

datatype conversion = NoConversion | Unrepresentable | Converted int string

definition scan_d :: "string \<Rightarrow> conversion" where
  "scan_d s =
     (let s1 = dropWhile isspace s;
          neg = (case s1 of [] \<Rightarrow> False | c # cs \<Rightarrow> c = CHR ''-'');
          s2 = (case s1 of [] \<Rightarrow> []
                | c # cs \<Rightarrow> if c = CHR ''-'' \<or> c = CHR ''+'' then cs else s1);
          ds = takeWhile isdigit s2;
          v = (if neg then - int (decimal ds) else int (decimal ds))
      in if ds = [] then NoConversion
         else if v < INT_MIN \<or> INT_MAX < v then Unrepresentable
         else Converted v (dropWhile isdigit s2))"

text \<open>
  The outcome of the whole call: how many variables were assigned, with their values.
  \<open>Scanned0\<close> stands for the return values 0 and \<^verbatim>\<open>EOF\<close>: neither assigns anything and
  neither equals 2.
\<close>

datatype scanned = Scanned0 | Scanned1 int | Scanned2 int int

definition sscanf_d_dot_d :: "string \<Rightarrow> error + scanned" where
  "sscanf_d_dot_d s =
     (case scan_d s of
        NoConversion \<Rightarrow> Inr Scanned0
      | Unrepresentable \<Rightarrow> Inl UndefinedConversion
      | Converted major r1 \<Rightarrow>
          (case r1 of
             [] \<Rightarrow> Inr (Scanned1 major)
           | c # r2 \<Rightarrow>
               if c = CHR ''.'' then
                 (case scan_d r2 of
                    NoConversion \<Rightarrow> Inr (Scanned1 major)
                  | Unrepresentable \<Rightarrow> Inl UndefinedConversion
                  | Converted minor r3 \<Rightarrow> Inr (Scanned2 major minor))
               else Inr (Scanned1 major)))"

section \<open>\<^verbatim>\<open>ShaderGen::SetGLSLVersionString\<close>\<close>

text \<open>
  \<^verbatim>\<open>snprintf(buf, sizeof(buf), "#version %d%02d%s", ...)\<close> with \<^verbatim>\<open>char buf[128]\<close>: at most
  127 characters are kept.
\<close>

definition snprintf_version :: "bool \<Rightarrow> int \<Rightarrow> int \<Rightarrow> string" where
  "snprintf_version glsl_es major_version minor_version =
     take 127 (''#version '' @ printf_d major_version @ printf_02d minor_version @
               (if glsl_es \<and> major_version \<ge> 3 then '' es'' else ''''))"

text \<open>The message of \<^verbatim>\<open>Log_ErrorPrintf\<close> in the fallback branch.\<close>

definition invalid_version_message :: "string \<Rightarrow> string \<Rightarrow> string" where
  "invalid_version_message glsl_version glsl_version_start =
     ''Invalid GLSL version string: '' @ [CHR 0x27] @ glsl_version @ [CHR 0x27] @
     '' ('' @ [CHR 0x27] @ glsl_version_start @ [CHR 0x27] @ '')''"

text \<open>
  The capping of a version that was read (the branch taken when \<^verbatim>\<open>sscanf\<close> returns 2).
\<close>

definition cap_version :: "bool \<Rightarrow> int \<Rightarrow> int \<Rightarrow> int \<times> int" where
  "cap_version glsl_es major_version minor_version =
     (if \<not> glsl_es \<and> (major_version > 4 \<or> (major_version = 4 \<and> minor_version > 30))
      then (4, 30)
      else if glsl_es \<and> (major_version > 3 \<or> (major_version = 3 \<and> minor_version > 20))
      then (3, 20)
      else (major_version, minor_version))"

text \<open>
  The function returns the generator with its version string set, and the error messages
  it logged. \<open>major_version\<close> and \<open>minor_version\<close> start at 0; a call of \<^verbatim>\<open>sscanf\<close> that
  returns 1 has assigned \<open>major_version\<close>. The fallback branch assigns the member string
  and the final assignment from \<open>buf\<close> replaces it.
\<close>

definition SetGLSLVersionString :: "shader_gen \<Rightarrow> gl_context \<Rightarrow> error + (shader_gen \<times> string list)" where
  "SetGLSLVersionString sg gl =
     (case GL_SHADING_LANGUAGE_VERSION gl of
        None \<Rightarrow> Inl AssertionFailed
      | Some str \<Rightarrow>
          (let glsl_version = c_str str;
               glsl_es = (m_render_api sg = OpenGLES);
               glsl_version_start = dropWhile (\<lambda>c. \<not> isdigit c) glsl_version
           in case sscanf_d_dot_d glsl_version_start of
                Inl e \<Rightarrow> Inl e
              | Inr (Scanned2 major_version minor_version) \<Rightarrow>
                  (case cap_version glsl_es major_version minor_version of
                     (major_version', minor_version') \<Rightarrow>
                       Inr (sg\<lparr>m_glsl_version_string :=
                                 snprintf_version glsl_es major_version' minor_version'\<rparr>, []))
              | Inr not_two \<Rightarrow>
                  (let major_version = (case not_two of Scanned1 m \<Rightarrow> m | _ \<Rightarrow> 0);
                       minor_version = 0;
                       major_version' = (if glsl_es then 3 else major_version);
                       minor_version' = (if glsl_es then 0 else minor_version);
                       sg1 = sg\<lparr>m_glsl_version_string := (if glsl_es then ''300'' else ''130'')\<rparr>
                   in Inr (sg1\<lparr>m_glsl_version_string :=
                                  snprintf_version glsl_es major_version' minor_version'\<rparr>,
                           [invalid_version_message glsl_version glsl_version_start]))))"

section \<open>The constructor\<close>

text \<open>
  Modelled from the spec: \<^verbatim>\<open>IsVulkan()\<close> is defined in the class declaration, which is
  not among the sources; it tells whether the backend is the Vulkan-style one.
\<close>

definition IsVulkan :: "shader_gen \<Rightarrow> bool" where
  "IsVulkan sg = (m_render_api sg = Vulkan)"

definition UseGLSLBindingLayout :: "gl_context \<Rightarrow> bool" where
  "UseGLSLBindingLayout gl =
     (GLAD_GL_ES_VERSION_3_1 gl \<or> GLAD_GL_VERSION_4_2 gl \<or>
      (GLAD_GL_ARB_explicit_attrib_location gl \<and> GLAD_GL_ARB_explicit_uniform_location gl \<and>
       GLAD_GL_ARB_shading_language_420pack gl))"

text \<open>
  The constructor returns the generator and the messages logged, or the reason it stopped.
  The initialiser list leaves \<open>m_use_glsl_binding_layout\<close> out, and the body assigns it for
  the GLSL family only; for the D3D-style backend the model holds \<open>False\<close> there, a value
  no emitter reads when \<open>m_glsl\<close> is false. The version string starts empty.
\<close>

definition ShaderGen :: "RenderAPI \<Rightarrow> bool \<Rightarrow> gl_context \<Rightarrow> error + (shader_gen \<times> string list)" where
  "ShaderGen render_api supports_dual_source_blend gl =
     (let sg = \<lparr>m_render_api = render_api,
                m_glsl = (render_api \<noteq> D3D11),
                m_supports_dual_source_blend = supports_dual_source_blend,
                m_use_glsl_interface_blocks = False,
                m_use_glsl_binding_layout = False,
                m_glsl_version_string = []\<rparr>
      in if m_glsl sg then
           (case (if m_render_api sg = OpenGL \<or> m_render_api sg = OpenGLES
                  then SetGLSLVersionString sg gl else Inr (sg, [])) of
              Inl e \<Rightarrow> Inl e
            | Inr (sg1, logged) \<Rightarrow>
                Inr (sg1\<lparr>m_use_glsl_interface_blocks :=
                             (IsVulkan sg1 \<or> GLAD_GL_ES_VERSION_3_2 gl \<or> GLAD_GL_VERSION_3_2 gl),
                          m_use_glsl_binding_layout :=
                             (IsVulkan sg1 \<or> UseGLSLBindingLayout gl)\<rparr>,
                     logged))
         else Inr (sg, []))"

text \<open>
  Modelled from the spec: the flags of \<^verbatim>\<open>glad.h\<close> are set by the loader, which is not
  among the sources. The spec reads \<^verbatim>\<open>GLAD_GL_VERSION_3_2\<close> and
  \<^verbatim>\<open>GLAD_GL_ES_VERSION_3_2\<close> as "the queried version is at least 3.2" of a desktop and of
  an embedded context: a version flag \<open>x.y\<close> holds when the context's version
  \<open>major.minor\<close> is at least \<open>x.y\<close>.
\<close>

definition version_at_least :: "nat \<Rightarrow> nat \<Rightarrow> nat \<Rightarrow> nat \<Rightarrow> bool" where
  "version_at_least major minor x y = (major > x \<or> (major = x \<and> minor \<ge> y))"

definition glad_loaded :: "RenderAPI \<Rightarrow> nat \<Rightarrow> nat \<Rightarrow> gl_context \<Rightarrow> gl_context" where
  "glad_loaded render_api major minor gl =
     gl\<lparr>GLAD_GL_VERSION_3_2 := (render_api = OpenGL \<and> version_at_least major minor 3 2),
        GLAD_GL_VERSION_4_2 := (render_api = OpenGL \<and> version_at_least major minor 4 2),
        GLAD_GL_VERSION_4_3 := (render_api = OpenGL \<and> version_at_least major minor 4 3),
        GLAD_GL_ES_VERSION_3_1 := (render_api = OpenGLES \<and> version_at_least major minor 3 1),
        GLAD_GL_ES_VERSION_3_2 := (render_api = OpenGLES \<and> version_at_least major minor 3 2)\<rparr>"

section \<open>The header\<close>

text \<open>
  The sink \<^verbatim>\<open>std::stringstream& ss\<close> is only appended to: each emitter is modelled by the
  text it appends, and a caller appends the texts in the order of its calls.
\<close>

definition DefineMacro :: "string \<Rightarrow> bool \<Rightarrow> string" where
  "DefineMacro name enabled =
     ''#define '' @ name @ '' '' @ string_of_u32 (BoolToUInt32 enabled) @ ''\<newline>''"

text \<open>The two shim blocks of \<^verbatim>\<open>WriteHeader\<close>, line by line.\<close>

definition glsl_shim :: string where
  "glsl_shim =
     ''#define GLSL 1\<newline>'' @
     ''#define float2 vec2\<newline>'' @
     ''#define float3 vec3\<newline>'' @
     ''#define float4 vec4\<newline>'' @
     ''#define int2 ivec2\<newline>'' @
     ''#define int3 ivec3\<newline>'' @
     ''#define int4 ivec4\<newline>'' @
     ''#define uint2 uvec2\<newline>'' @
     ''#define uint3 uvec3\<newline>'' @
     ''#define uint4 uvec4\<newline>'' @
     ''#define float2x2 mat2\<newline>'' @
     ''#define float3x3 mat3\<newline>'' @
     ''#define float4x4 mat4\<newline>'' @
     ''#define mul(x, y) ((x) * (y))\<newline>'' @
     ''#define nointerpolation flat\<newline>'' @
     ''#define frac fract\<newline>'' @
     ''#define lerp mix\<newline>'' @
     ''#define CONSTANT const\<newline>'' @
     ''#define VECTOR_EQ(a, b) ((a) == (b))\<newline>'' @
     ''#define VECTOR_NEQ(a, b) ((a) != (b))\<newline>'' @
     ''#define VECTOR_COMP_EQ(a, b) equal((a), (b))\<newline>'' @
     ''#define VECTOR_COMP_NEQ(a, b) notEqual((a), (b))\<newline>'' @
     ''#define SAMPLE_TEXTURE(name, coords) texture(name, coords)\<newline>'' @
     ''#define LOAD_TEXTURE(name, coords, mip) texelFetch(name, coords, mip)\<newline>'' @
     ''#define LOAD_TEXTURE_OFFSET(name, coords, mip, offset) texelFetchOffset(name, coords, mip, offset)\<newline>'' @
     ''#define LOAD_TEXTURE_BUFFER(name, index) texelFetch(name, index)\<newline>'' @
     ''#define BEGIN_ARRAY(type, size) type[size](\<newline>'' @
     ''#define END_ARRAY )\<newline>'' @
     ''float saturate(float value) { return clamp(value, 0.0, 1.0); }\<newline>'' @
     ''float2 saturate(float2 value) { return clamp(value, float2(0.0, 0.0), float2(1.0, 1.0)); }\<newline>'' @
     ''float3 saturate(float3 value) { return clamp(value, float3(0.0, 0.0, 0.0), float3(1.0, 1.0, 1.0)); }\<newline>'' @
     ''float4 saturate(float4 value) { return clamp(value, float4(0.0, 0.0, 0.0, 0.0), float4(1.0, 1.0, 1.0, 1.0)); }\<newline>''"

definition hlsl_shim :: string where
  "hlsl_shim =
     ''#define HLSL 1\<newline>'' @
     ''#define roundEven round\<newline>'' @
     ''#define mix lerp\<newline>'' @
     ''#define fract frac\<newline>'' @
     ''#define vec2 float2\<newline>'' @
     ''#define vec3 float3\<newline>'' @
     ''#define vec4 float4\<newline>'' @
     ''#define ivec2 int2\<newline>'' @
     ''#define ivec3 int3\<newline>'' @
     ''#define ivec4 int4\<newline>'' @
     ''#define uivec2 uint2\<newline>'' @
     ''#define uivec3 uint3\<newline>'' @
     ''#define uivec4 uint4\<newline>'' @
     ''#define mat2 float2x2\<newline>'' @
     ''#define mat3 float3x3\<newline>'' @
     ''#define mat4 float4x4\<newline>'' @
     ''#define CONSTANT static const\<newline>'' @
     ''#define VECTOR_EQ(a, b) (all((a) == (b)))\<newline>'' @
     ''#define VECTOR_NEQ(a, b) (any((a) != (b)))\<newline>'' @
     ''#define VECTOR_COMP_EQ(a, b) ((a) == (b))\<newline>'' @
     ''#define VECTOR_COMP_NEQ(a, b) ((a) != (b))\<newline>'' @
     ''#define SAMPLE_TEXTURE(name, coords) name.Sample(name##_ss, coords)\<newline>'' @
     ''#define LOAD_TEXTURE(name, coords, mip) name.Load(int3(coords, mip))\<newline>'' @
     ''#define LOAD_TEXTURE_OFFSET(name, coords, mip, offset) name.Load(int3(coords, mip), offset)\<newline>'' @
     ''#define LOAD_TEXTURE_BUFFER(name, index) name.Load(index)\<newline>'' @
     ''#define BEGIN_ARRAY(type, size) {\<newline>'' @
     ''#define END_ARRAY }\<newline>''"

text \<open>The four parts of \<^verbatim>\<open>WriteHeader\<close> before the shim, in the order of the source.\<close>

definition header_version :: "shader_gen \<Rightarrow> string" where
  "header_version sg =
     (if m_render_api sg = OpenGL \<or> m_render_api sg = OpenGLES
      then m_glsl_version_string sg @ ''\<newline>\<newline>''
      else if m_render_api sg = Vulkan then ''#version 450 core\<newline>\<newline>''
      else [])"

definition header_extensions :: "shader_gen \<Rightarrow> gl_context \<Rightarrow> string" where
  "header_extensions sg gl =
     (if m_render_api sg = OpenGLES then
        (if GLAD_GL_EXT_blend_func_extended gl
         then ''#extension GL_EXT_blend_func_extended : require\<newline>'' else [])
      else if m_render_api sg = OpenGL then
        (if m_use_glsl_binding_layout sg \<and> \<not> GLAD_GL_VERSION_4_3 gl then
           ''#extension GL_ARB_explicit_attrib_location : require\<newline>'' @
           ''#extension GL_ARB_explicit_uniform_location : require\<newline>'' @
           ''#extension GL_ARB_shading_language_420pack : require\<newline>''
         else []) @
        (if \<not> GLAD_GL_VERSION_3_2 gl
         then ''#extension GL_ARB_uniform_buffer_object : require\<newline>'' else []) @
        (if \<not> GLAD_GL_VERSION_4_3 gl \<and> \<not> GLAD_GL_ES_VERSION_3_1 gl \<and>
            GLAD_GL_ARB_shader_storage_buffer_object gl
         then ''#extension GL_ARB_shader_storage_buffer_object : require\<newline>'' else [])
      else [])"

definition header_api_macros :: "shader_gen \<Rightarrow> string" where
  "header_api_macros sg =
     DefineMacro ''API_OPENGL'' (m_render_api sg = OpenGL) @
     DefineMacro ''API_OPENGL_ES'' (m_render_api sg = OpenGLES) @
     DefineMacro ''API_D3D11'' (m_render_api sg = D3D11) @
     DefineMacro ''API_VULKAN'' (m_render_api sg = Vulkan)"

definition header_precision :: "shader_gen \<Rightarrow> gl_context \<Rightarrow> string" where
  "header_precision sg gl =
     (if m_render_api sg = OpenGLES then
        ''precision highp float;\<newline>'' @
        ''precision highp int;\<newline>'' @
        ''precision highp sampler2D;\<newline>'' @
        (if GLAD_GL_ES_VERSION_3_2 gl then ''precision highp usamplerBuffer;\<newline>'' else []) @
        ''\<newline>''
      else [])"

definition WriteHeader :: "shader_gen \<Rightarrow> gl_context \<Rightarrow> string" where
  "WriteHeader sg gl =
     header_version sg @
     header_extensions sg gl @
     header_api_macros sg @
     header_precision sg gl @
     (if m_glsl sg then glsl_shim else hlsl_shim) @
     ''\<newline>''"

section \<open>Declarations\<close>

definition WriteUniformBufferDeclaration :: "shader_gen \<Rightarrow> bool \<Rightarrow> string" where
  "WriteUniformBufferDeclaration sg push_constant_on_vulkan =
     (if IsVulkan sg then
        (if push_constant_on_vulkan
         then ''layout(push_constant) uniform PushConstants\<newline>''
         else ''layout(std140, set = 0, binding = 0) uniform UBOBlock\<newline>'')
      else if m_glsl sg then
        (if m_use_glsl_binding_layout sg
         then ''layout(std140, binding = 1) uniform UBOBlock\<newline>''
         else ''layout(std140) uniform UBOBlock\<newline>'')
      else ''cbuffer UBOBlock : register(b0)\<newline>'')"

definition DeclareUniformBuffer :: "shader_gen \<Rightarrow> string list \<Rightarrow> bool \<Rightarrow> string" where
  "DeclareUniformBuffer sg members push_constant_on_vulkan =
     WriteUniformBufferDeclaration sg push_constant_on_vulkan @
     ''{\<newline>'' @
     concat (map (\<lambda>member. member @ '';\<newline>'') members) @
     ''};\<newline>\<newline>''"

definition DeclareTexture :: "shader_gen \<Rightarrow> string \<Rightarrow> u32 \<Rightarrow> string" where
  "DeclareTexture sg name index =
     (if m_glsl sg then
        (if IsVulkan sg then ''layout(set = 0, binding = '' @ string_of_u32 (index + 1) @ '') ''
         else if m_use_glsl_binding_layout sg
         then ''layout(binding = '' @ string_of_u32 index @ '') ''
         else []) @
        ''uniform sampler2D '' @ name @ '';\<newline>''
      else
        ''Texture2D '' @ name @ '' : register(t'' @ string_of_u32 index @ '');\<newline>'' @
        ''SamplerState '' @ name @ ''_ss : register(s'' @ string_of_u32 index @ '');\<newline>'')"

definition DeclareTextureBuffer :: "shader_gen \<Rightarrow> string \<Rightarrow> u32 \<Rightarrow> bool \<Rightarrow> bool \<Rightarrow> string" where
  "DeclareTextureBuffer sg name index is_int is_unsigned =
     (if m_glsl sg then
        (if IsVulkan sg then ''layout(set = 0, binding = '' @ string_of_u32 index @ '') ''
         else if m_use_glsl_binding_layout sg
         then ''layout(binding = '' @ string_of_u32 index @ '') ''
         else []) @
        ''uniform '' @ (if is_int then (if is_unsigned then ''u'' else ''i'') else []) @
        ''samplerBuffer '' @ name @ '';\<newline>''
      else
        ''Buffer<'' @ (if is_int then (if is_unsigned then ''uint4'' else ''int4'') else ''float4'') @
        ''> '' @ name @ '' : register(t'' @ string_of_u32 index @ '');\<newline>'')"

section \<open>Entry points\<close>

text \<open>
  A loop \<^verbatim>\<open>for (u32 i = 0; i < n; i++) ss << ...\<close> appends one text for each \<open>i\<close> below
  \<open>n\<close>, in order. A counter of type \<^verbatim>\<open>u32\<close> that is incremented once for each element
  of a list holds its start plus the element's position, modulo \<open>2 ^ 32\<close>.
\<close>

definition for_u32 :: "u32 \<Rightarrow> (nat \<Rightarrow> string) \<Rightarrow> string" where
  "for_u32 n body = concat (map body [0..<unat n])"

definition for_counted :: "u32 \<Rightarrow> 'a list \<Rightarrow> (u32 \<Rightarrow> 'a \<Rightarrow> string) \<Rightarrow> string" where
  "for_counted start xs body =
     concat (map (\<lambda>(k, x). body (start + of_nat k) x) (enumerate 0 xs))"

definition DeclareVertexEntryPoint ::
  "shader_gen \<Rightarrow> string list \<Rightarrow> u32 \<Rightarrow> u32 \<Rightarrow> (string \<times> string) list \<Rightarrow> bool \<Rightarrow> string \<Rightarrow> string" where
  "DeclareVertexEntryPoint sg attributes num_color_outputs num_texcoord_outputs additional_outputs
       declare_vertex_id output_block_suffix =
     (if m_glsl sg then
        (if m_use_glsl_binding_layout sg then
           for_counted 0 attributes (\<lambda>attribute_counter attribute.
             ''layout(location = '' @ string_of_u32 attribute_counter @ '') in '' @ attribute @
             '';\<newline>'')
         else concat (map (\<lambda>attribute. ''in '' @ attribute @ '';\<newline>'') attributes)) @
        (if m_use_glsl_interface_blocks sg then
           (if IsVulkan sg then ''layout(location = 0) '' else []) @
           ''out VertexData'' @ output_block_suffix @ '' {\<newline>'' @
           for_u32 num_color_outputs (\<lambda>i. ''  float4 v_col'' @ string_of_nat i @ '';\<newline>'') @
           for_u32 num_texcoord_outputs (\<lambda>i. ''  float2 v_tex'' @ string_of_nat i @ '';\<newline>'') @
           concat (map (\<lambda>(qualifiers, name). ''  '' @ qualifiers @ '' '' @ name @ '';\<newline>'')
                       additional_outputs) @
           ''};\<newline>''
         else
           for_u32 num_color_outputs (\<lambda>i. ''out float4 v_col'' @ string_of_nat i @ '';\<newline>'') @
           for_u32 num_texcoord_outputs (\<lambda>i. ''out float2 v_tex'' @ string_of_nat i @ '';\<newline>'') @
           concat (map (\<lambda>(qualifiers, name). qualifiers @ '' out '' @ name @ '';\<newline>'')
                       additional_outputs)) @
        ''#define v_pos gl_Position\<newline>\<newline>'' @
        (if declare_vertex_id then
           (if IsVulkan sg then ''#define v_id uint(gl_VertexIndex)\<newline>''
            else ''#define v_id uint(gl_VertexID)\<newline>'')
         else []) @
        ''\<newline>'' @
        ''void main()\<newline>''
      else
        ''void main(\<newline>'' @
        (if declare_vertex_id then ''  in uint v_id : SV_VertexID,\<newline>'' else []) @
        for_counted 0 attributes (\<lambda>attribute_counter attribute.
          ''  in '' @ attribute @ '' : ATTR'' @ string_of_u32 attribute_counter @ '',\<newline>'') @
        for_u32 num_color_outputs (\<lambda>i.
          ''  out float4 v_col'' @ string_of_nat i @ '' : COLOR'' @ string_of_nat i @ '',\<newline>'') @
        for_u32 num_texcoord_outputs (\<lambda>i.
          ''  out float2 v_tex'' @ string_of_nat i @ '' : TEXCOORD'' @ string_of_nat i @ '',\<newline>'') @
        for_counted num_texcoord_outputs additional_outputs (\<lambda>additional_counter (qualifiers, name).
          ''  '' @ qualifiers @ '' out '' @ name @ '' : TEXCOORD'' @
          string_of_u32 additional_counter @ '',\<newline>'') @
        ''  out float4 v_pos : SV_Position)\<newline>'')"

text \<open>
  The fragment entry point, in the parts of the source: the inputs of the GLSL family, its
  color outputs (where the \<^verbatim>\<open>Assert\<close> stands), and the parameter list of the HLSL family.
\<close>

definition glsl_fragment_inputs ::
  "shader_gen \<Rightarrow> u32 \<Rightarrow> u32 \<Rightarrow> (string \<times> string) list \<Rightarrow> string" where
  "glsl_fragment_inputs sg num_color_inputs num_texcoord_inputs additional_inputs =
     (if m_use_glsl_interface_blocks sg then
        (if IsVulkan sg then ''layout(location = 0) '' else []) @
        ''in VertexData {\<newline>'' @
        for_u32 num_color_inputs (\<lambda>i. ''  float4 v_col'' @ string_of_nat i @ '';\<newline>'') @
        for_u32 num_texcoord_inputs (\<lambda>i. ''  float2 v_tex'' @ string_of_nat i @ '';\<newline>'') @
        concat (map (\<lambda>(qualifiers, name). ''  '' @ qualifiers @ '' '' @ name @ '';\<newline>'')
                    additional_inputs) @
        ''};\<newline>''
      else
        for_u32 num_color_inputs (\<lambda>i. ''in float4 v_col'' @ string_of_nat i @ '';\<newline>'') @
        for_u32 num_texcoord_inputs (\<lambda>i. ''in float2 v_tex'' @ string_of_nat i @ '';\<newline>'') @
        concat (map (\<lambda>(qualifiers, name). qualifiers @ '' in '' @ name @ '';\<newline>'')
                    additional_inputs))"

definition glsl_fragment_outputs :: "shader_gen \<Rightarrow> u32 \<Rightarrow> error + string" where
  "glsl_fragment_outputs sg num_color_outputs =
     (if m_use_glsl_binding_layout sg then
        (if m_supports_dual_source_blend sg then
           Inr (for_u32 num_color_outputs (\<lambda>i.
                  ''layout(location = 0, index = '' @ string_of_nat i @ '') out float4 o_col'' @
                  string_of_nat i @ '';\<newline>''))
         else if num_color_outputs \<le> 1 then
           Inr (for_u32 num_color_outputs (\<lambda>i.
                  ''layout(location = 0'' @ string_of_nat i @ '') out float4 o_col'' @
                  string_of_nat i @ '';\<newline>''))
         else Inl AssertionFailed)
      else
        Inr (for_u32 num_color_outputs (\<lambda>i.
               ''out float4 o_col'' @ string_of_nat i @ '';\<newline>'')))"

definition hlsl_fragment_parameters ::
  "u32 \<Rightarrow> u32 \<Rightarrow> (string \<times> string) list \<Rightarrow> bool \<Rightarrow> u32 \<Rightarrow> bool \<Rightarrow> string" where
  "hlsl_fragment_parameters num_color_inputs num_texcoord_inputs additional_inputs
       declare_fragcoord num_color_outputs depth_output =
     for_u32 num_color_inputs (\<lambda>i.
       ''  in float4 v_col'' @ string_of_nat i @ '' : COLOR'' @ string_of_nat i @ '',\<newline>'') @
     for_u32 num_texcoord_inputs (\<lambda>i.
       ''  in float2 v_tex'' @ string_of_nat i @ '' : TEXCOORD'' @ string_of_nat i @ '',\<newline>'') @
     for_counted num_texcoord_inputs additional_inputs (\<lambda>additional_counter (qualifiers, name).
       ''  '' @ qualifiers @ '' in '' @ name @ '' : TEXCOORD'' @
       string_of_u32 additional_counter @ '',\<newline>'') @
     (if declare_fragcoord then ''  in float4 v_pos : SV_Position,\<newline>'' else []) @
     (if depth_output then
        ''  out float o_depth : SV_Depth'' @
        (if num_color_outputs > 0 then '',\<newline>'' else '')\<newline>'')
      else []) @
     for_u32 num_color_outputs (\<lambda>i.
       ''  out float4 o_col'' @ string_of_nat i @ '' : SV_Target'' @ string_of_nat i @
       (if i = unat (num_color_outputs - 1) then '')\<newline>'' else '',\<newline>''))"

definition DeclareFragmentEntryPoint ::
  "shader_gen \<Rightarrow> u32 \<Rightarrow> u32 \<Rightarrow> (string \<times> string) list \<Rightarrow> bool \<Rightarrow> u32 \<Rightarrow> bool \<Rightarrow> error + string" where
  "DeclareFragmentEntryPoint sg num_color_inputs num_texcoord_inputs additional_inputs
       declare_fragcoord num_color_outputs depth_output =
     (if m_glsl sg then
        (case glsl_fragment_outputs sg num_color_outputs of
           Inl e \<Rightarrow> Inl e
         | Inr outputs \<Rightarrow>
             Inr (glsl_fragment_inputs sg num_color_inputs num_texcoord_inputs additional_inputs @
                  (if declare_fragcoord then ''#define v_pos gl_FragCoord\<newline>'' else []) @
                  (if depth_output then ''#define o_depth gl_FragDepth\<newline>'' else []) @
                  outputs @
                  ''\<newline>'' @
                  ''void main()\<newline>''))
      else
        Inr (''void main(\<newline>'' @
             hlsl_fragment_parameters num_color_inputs num_texcoord_inputs additional_inputs
               declare_fragcoord num_color_outputs depth_output))"

section \<open>Whole shaders\<close>

text \<open>
  Modelled from the spec: the default of the last parameter of
  \<^verbatim>\<open>DeclareVertexEntryPoint\<close> is given in the class declaration, which is not among the
  sources. The spec calls it a suffix of the interface block's name, and the fragment stage
  reads the block under the bare name \<^verbatim>\<open>VertexData\<close>: the default is the empty suffix.
\<close>

definition default_output_block_suffix :: string where
  "default_output_block_suffix = []"

definition screen_quad_vertex_body :: string where
  "screen_quad_vertex_body =
     ''\<newline>'' @
     ''{\<newline>'' @
     ''  v_tex0 = float2(float((v_id << 1) & 2u), float(v_id & 2u));\<newline>'' @
     ''  v_pos = float4(v_tex0 * float2(2.0f, -2.0f) + float2(-1.0f, 1.0f), 0.0f, 1.0f);\<newline>'' @
     ''  #if API_OPENGL || API_OPENGL_ES || API_VULKAN\<newline>'' @
     ''    v_pos.y = -v_pos.y;\<newline>'' @
     ''  #endif\<newline>'' @
     ''}\<newline>''"

definition GenerateScreenQuadVertexShader :: "shader_gen \<Rightarrow> gl_context \<Rightarrow> string" where
  "GenerateScreenQuadVertexShader sg gl =
     WriteHeader sg gl @
     DeclareVertexEntryPoint sg [] 0 1 [] True default_output_block_suffix @
     screen_quad_vertex_body"

definition fill_fragment_body :: string where
  "fill_fragment_body =
     ''\<newline>'' @
     ''{\<newline>'' @
     ''  o_col0 = u_fill_color;\<newline>'' @
     ''  o_depth = u_fill_color.a;\<newline>'' @
     ''}\<newline>''"

definition GenerateFillFragmentShader :: "shader_gen \<Rightarrow> gl_context \<Rightarrow> error + string" where
  "GenerateFillFragmentShader sg gl =
     (case DeclareFragmentEntryPoint sg 0 1 [] False 1 True of
        Inl e \<Rightarrow> Inl e
      | Inr entry_point \<Rightarrow>
          Inr (WriteHeader sg gl @
               DeclareUniformBuffer sg [''float4 u_fill_color''] True @
               entry_point @
               fill_fragment_body))"

definition copy_fragment_body :: string where
  "copy_fragment_body =
     ''\<newline>'' @
     ''{\<newline>'' @
     ''  float2 coords = u_src_rect.xy + v_tex0 * u_src_rect.zw;\<newline>'' @
     ''  o_col0 = SAMPLE_TEXTURE(samp0, coords);\<newline>'' @
     ''}\<newline>''"

definition GenerateCopyFragmentShader :: "shader_gen \<Rightarrow> gl_context \<Rightarrow> error + string" where
  "GenerateCopyFragmentShader sg gl =
     (case DeclareFragmentEntryPoint sg 0 1 [] False 1 False of
        Inl e \<Rightarrow> Inl e
      | Inr entry_point \<Rightarrow>
          Inr (WriteHeader sg gl @
               DeclareUniformBuffer sg [''float4 u_src_rect''] True @
               DeclareTexture sg ''samp0'' 0 @
               entry_point @
               copy_fragment_body))"

section \<open>Reading the emitted text\<close>

text \<open>
  The lines of a text: a line ends at a newline; a last line without one counts when it is
  not empty.
\<close>

fun text_lines :: "string \<Rightarrow> string list" where
  "text_lines [] = []"
| "text_lines (c # cs) =
     (if c = CHR ''\<newline>'' then [] # text_lines cs
      else (case text_lines cs of [] \<Rightarrow> [[c]] | l # ls \<Rightarrow> (c # l) # ls))"

text \<open>The lines that define a backend-identity macro, in their order.\<close>

definition api_macro_lines :: "string \<Rightarrow> string list" where
  "api_macro_lines s = filter (prefix ''#define API_'') (text_lines s)"

text \<open>A text that is empty or ends with a newline: what follows it starts a line.\<close>

definition ends_line :: "string \<Rightarrow> bool" where
  "ends_line s = (s = [] \<or> last s = CHR ''\<newline>'')"

text \<open>A text of whole lines, none of which defines a backend-identity macro.\<close>

definition no_api_macros :: "string \<Rightarrow> bool" where
  "no_api_macros s = (ends_line s \<and> api_macro_lines s = [])"

section \<open>Facts about the text of numbers\<close>

lemma length_string_of_nat: "0 < k \<Longrightarrow> n < 10 ^ k \<Longrightarrow> length (string_of_nat n) \<le> k"
proof (induction n arbitrary: k rule: string_of_nat.induct)
  case (1 n)
  show ?case
  proof (cases "n < 10")
    case True
    then show ?thesis using "1.prems" by (simp add: string_of_nat.simps)
  next
    case False
    from "1.prems" obtain j where k: "k = Suc j" by (cases k) auto
    have j: "0 < j" using False "1.prems" k by (cases j) auto
    have "n div 10 < 10 ^ j" using "1.prems" k by (simp add: less_mult_imp_div_less mult.commute)
    then have "length (string_of_nat (n div 10)) \<le> j" using "1.IH"[OF False j] by simp
    then show ?thesis using False k by (subst string_of_nat.simps) simp
  qed
qed

lemma length_string_of_nat_int: "v \<le> INT_MAX + 1 \<Longrightarrow> length (string_of_nat (nat v)) \<le> 10"
proof -
  assume "v \<le> INT_MAX + 1"
  then have "nat v < 10 ^ 10" by (simp add: INT_MAX_def)
  then show ?thesis by (rule length_string_of_nat[rotated]) simp
qed

lemma length_printf_d: "INT_MIN \<le> v \<Longrightarrow> v \<le> INT_MAX \<Longrightarrow> length (printf_d v) \<le> 11"
  using length_string_of_nat_int[of v] length_string_of_nat_int[of "- v"]
  by (auto simp: printf_d_def INT_MIN_def INT_MAX_def)

lemma length_printf_02d: "INT_MIN \<le> v \<Longrightarrow> v \<le> INT_MAX \<Longrightarrow> length (printf_02d v) \<le> 11"
  using length_string_of_nat_int[of v] length_string_of_nat_int[of "- v"]
  by (auto simp: printf_02d_def INT_MIN_def INT_MAX_def)

lemma printf_d_one_digit: "0 \<le> v \<Longrightarrow> v < 10 \<Longrightarrow> printf_d v = [digit_char (nat v)]"
  by (simp add: printf_d_def string_of_nat.simps)

lemma printf_02d_two_digits:
  "0 \<le> v \<Longrightarrow> v < 100 \<Longrightarrow> printf_02d v = [digit_char (nat v div 10), digit_char (nat v mod 10)]"
proof -
  assume v: "0 \<le> v" "v < 100"
  show ?thesis
  proof (cases "v < 10")
    case True
    then show ?thesis using v by (simp add: printf_02d_def string_of_nat.simps digit_char_def)
  next
    case False
    then have "nat v div 10 < 10" "\<not> nat v < 10" using v by auto
    then show ?thesis using v
      by (simp add: printf_02d_def string_of_nat.simps[of "nat v"] string_of_nat.simps[of "nat v div 10"])
  qed
qed

text \<open>The buffer of 128 characters never cuts the directive of two \<^verbatim>\<open>int\<close> values.\<close>

lemma snprintf_version_fits:
  "INT_MIN \<le> a \<Longrightarrow> a \<le> INT_MAX \<Longrightarrow> INT_MIN \<le> b \<Longrightarrow> b \<le> INT_MAX \<Longrightarrow>
   snprintf_version es a b =
     ''#version '' @ printf_d a @ printf_02d b @ (if es \<and> a \<ge> 3 then '' es'' else [])"
  using length_printf_d[of a] length_printf_02d[of b]
  by (auto simp: snprintf_version_def)

lemma snprintf_version_430: "snprintf_version False 4 30 = ''#version 430''"
  by (simp add: snprintf_version_def printf_d_def printf_02d_def string_of_nat.simps digit_char_def)

lemma snprintf_version_320_es: "snprintf_version True 3 20 = ''#version 320 es''"
  by (simp add: snprintf_version_def printf_d_def printf_02d_def string_of_nat.simps digit_char_def)

lemma snprintf_version_300_es: "snprintf_version True 3 0 = ''#version 300 es''"
  by (simp add: snprintf_version_def printf_d_def printf_02d_def string_of_nat.simps digit_char_def)

lemma snprintf_version_000: "snprintf_version False 0 0 = ''#version 000''"
  by (simp add: snprintf_version_def printf_d_def printf_02d_def string_of_nat.simps digit_char_def)

section \<open>Facts about \<^verbatim>\<open>sscanf\<close>\<close>

lemma scan_d_range: "scan_d s = Converted v r \<Longrightarrow> INT_MIN \<le> v \<and> v \<le> INT_MAX"
  by (auto simp: scan_d_def Let_def split: if_splits)

lemma sscanf_range:
  "sscanf_d_dot_d s = Inr (Scanned2 a b) \<Longrightarrow>
   INT_MIN \<le> a \<and> a \<le> INT_MAX \<and> INT_MIN \<le> b \<and> b \<le> INT_MAX"
  by (auto simp: sscanf_d_dot_d_def split: conversion.splits list.splits if_splits
           dest: scan_d_range)

lemmas eval_scan = isdigit_def isspace_def c_str_def decimal_def INT_MAX_def INT_MIN_def
  scan_d_def sscanf_d_dot_d_def Let_def

section \<open>The version directive\<close>

text \<open>
  C1, as the code has it. When the driver's string is present and holds no digit,
  \<^verbatim>\<open>sscanf\<close> assigns nothing; \<open>SetGLSLVersionString\<close> logs one error and returns. For the
  embedded backend the directive is \<^verbatim>\<open>#version 300 es\<close>. For every other backend the
  directive is \<^verbatim>\<open>#version 000\<close>: the string \<^verbatim>\<open>"130"\<close> the fallback branch assigns is
  replaced by the text formatted from \<open>major_version = 0\<close> and \<open>minor_version = 0\<close>.
\<close>

theorem SetGLSLVersionString_unparsable:
  assumes "GL_SHADING_LANGUAGE_VERSION gl = Some str"
      and "sscanf_d_dot_d (dropWhile (\<lambda>c. \<not> isdigit c) (c_str str)) = Inr Scanned0"
  shows "SetGLSLVersionString sg gl =
           Inr (sg\<lparr>m_glsl_version_string :=
                  (if m_render_api sg = OpenGLES then ''#version 300 es'' else ''#version 000'')\<rparr>,
                [invalid_version_message (c_str str) (dropWhile (\<lambda>c. \<not> isdigit c) (c_str str))])"
  using assms
  by (simp add: SetGLSLVersionString_def Let_def snprintf_version_300_es snprintf_version_000)

theorem SetGLSLVersionString_unparsable_witness:
  "\<forall>sg gl. SetGLSLVersionString (sg\<lparr>m_render_api := OpenGL\<rparr>)
              (gl\<lparr>GL_SHADING_LANGUAGE_VERSION := Some ''abc''\<rparr>) =
            Inr (sg\<lparr>m_render_api := OpenGL, m_glsl_version_string := ''#version 000''\<rparr>,
                 [invalid_version_message ''abc'' []])"
proof (intro allI)
  fix sg :: shader_gen and gl :: gl_context
  have scan: "sscanf_d_dot_d (dropWhile (\<lambda>c. \<not> isdigit c) (c_str ''abc'')) = Inr Scanned0"
    by (simp add: eval_scan)
  show "SetGLSLVersionString (sg\<lparr>m_render_api := OpenGL\<rparr>)
              (gl\<lparr>GL_SHADING_LANGUAGE_VERSION := Some ''abc''\<rparr>) =
            Inr (sg\<lparr>m_render_api := OpenGL, m_glsl_version_string := ''#version 000''\<rparr>,
                 [invalid_version_message ''abc'' []])"
    using SetGLSLVersionString_unparsable[of "gl\<lparr>GL_SHADING_LANGUAGE_VERSION := Some ''abc''\<rparr>"
        "''abc''" "sg\<lparr>m_render_api := OpenGL\<rparr>", OF _ scan]
    by (simp add: eval_scan)
qed

lemma string_of_nat_nonempty: "1 \<le> length (string_of_nat n)"
  by (subst string_of_nat.simps) simp

lemma length_string_of_nat_three: "100 \<le> n \<Longrightarrow> 3 \<le> length (string_of_nat n)"
proof -
  assume n: "100 \<le> n"
  then have "\<not> n < 10" "\<not> n div 10 < 10" by auto
  then have "string_of_nat n =
      string_of_nat (n div 10 div 10) @ [digit_char (n div 10 mod 10)] @ [digit_char (n mod 10)]"
    by (simp add: string_of_nat.simps[of n] string_of_nat.simps[of "n div 10"])
  then show ?thesis using string_of_nat_nonempty[of "n div 10 div 10"] by simp
qed

lemma printf_02d_three_digits:
  "100 \<le> v \<Longrightarrow> printf_02d v = string_of_nat (nat v) \<and> 3 \<le> length (printf_02d v)"
proof -
  assume "100 \<le> v"
  then have "100 \<le> nat v" by simp
  then have "3 \<le> length (string_of_nat (nat v))" by (rule length_string_of_nat_three)
  then show ?thesis using \<open>100 \<le> v\<close> by (simp add: printf_02d_def)
qed

lemma printf_02d_negative: "v < 0 \<Longrightarrow> printf_02d v = CHR ''-'' # string_of_nat (nat (- v))"
  by (simp add: printf_02d_def)

text \<open>After the skip loop the text is empty or starts with a digit: the major number has no sign.\<close>

lemma scan_d_digit_nonneg: "isdigit c \<Longrightarrow> scan_d (c # cs) = Converted v r \<Longrightarrow> 0 \<le> v"
  by (auto simp: scan_d_def Let_def isdigit_def isspace_def split: if_splits)

lemma sscanf_after_skip_nonneg:
  assumes "sscanf_d_dot_d (dropWhile (\<lambda>c. \<not> isdigit c) s) = Inr (Scanned2 major minor)"
  shows "0 \<le> major"
proof (cases "dropWhile (\<lambda>c. \<not> isdigit c) s")
  case Nil
  with assms show ?thesis by (simp add: sscanf_d_dot_d_def scan_d_def)
next
  case (Cons c cs)
  then have "isdigit c" using hd_dropWhile[of "\<lambda>c. \<not> isdigit c" s] by auto
  moreover obtain r where "scan_d (c # cs) = Converted major r"
    using assms Cons
    by (auto simp: sscanf_d_dot_d_def split: conversion.splits list.splits if_splits)
  ultimately show ?thesis by (rule scan_d_digit_nonneg)
qed

text \<open>
  C5, as the code has it. When \<^verbatim>\<open>sscanf\<close> reads both numbers, nothing is logged. A
  version above 4.30 (above 3.20 for the embedded backend) gives the directive of 4.30
  (of 3.20). Any other version gives \<^verbatim>\<open>#version\<close>, the decimal digits of the major number
  (which has no sign), the minor number as \<^verbatim>\<open>%02d\<close> writes it and, for the embedded
  backend with a major number of at least 3, the suffix \<^verbatim>\<open> es\<close>. The width 2 of \<^verbatim>\<open>%02d\<close>
  is a minimum: a minor number from 0 to 99 is written with exactly two digits, padded
  with a zero; one of 100 or more is written with all its digits, three at least; a
  negative one is written with its minus sign and its digits.
\<close>

theorem SetGLSLVersionString_parsed:
  assumes str: "GL_SHADING_LANGUAGE_VERSION gl = Some str"
      and scan: "sscanf_d_dot_d (dropWhile (\<lambda>c. \<not> isdigit c) (c_str str)) =
                   Inr (Scanned2 major minor)"
  shows "0 \<le> major \<and>
         SetGLSLVersionString sg gl =
           Inr (sg\<lparr>m_glsl_version_string :=
                  (if m_render_api sg = OpenGLES then
                     (if major > 3 \<or> (major = 3 \<and> minor > 20) then ''#version 320 es''
                      else ''#version '' @ string_of_nat (nat major) @ printf_02d minor @
                           (if major \<ge> 3 then '' es'' else []))
                   else
                     (if major > 4 \<or> (major = 4 \<and> minor > 30) then ''#version 430''
                      else ''#version '' @ string_of_nat (nat major) @ printf_02d minor))\<rparr>, []) \<and>
         (0 \<le> minor \<and> minor < 100 \<longrightarrow>
            printf_02d minor = [digit_char (nat minor div 10), digit_char (nat minor mod 10)]) \<and>
         (100 \<le> minor \<longrightarrow>
            printf_02d minor = string_of_nat (nat minor) \<and> 3 \<le> length (printf_02d minor)) \<and>
         (minor < 0 \<longrightarrow> printf_02d minor = CHR ''-'' # string_of_nat (nat (- minor)))"
proof -
  have range: "INT_MIN \<le> major" "major \<le> INT_MAX" "INT_MIN \<le> minor" "minor \<le> INT_MAX"
    using sscanf_range[OF scan] by simp_all
  have major: "0 \<le> major"
    using scan by (rule sscanf_after_skip_nonneg)
  then have digits: "printf_d major = string_of_nat (nat major)"
    by (simp add: printf_d_def)
  have fits: "snprintf_version es major minor =
      ''#version '' @ string_of_nat (nat major) @ printf_02d minor @
      (if es \<and> major \<ge> 3 then '' es'' else [])"
    for es
    using snprintf_version_fits[OF range, of es] digits by simp
  have "SetGLSLVersionString sg gl =
           Inr (sg\<lparr>m_glsl_version_string :=
                  (if m_render_api sg = OpenGLES then
                     (if major > 3 \<or> (major = 3 \<and> minor > 20) then ''#version 320 es''
                      else ''#version '' @ string_of_nat (nat major) @ printf_02d minor @
                           (if major \<ge> 3 then '' es'' else []))
                   else
                     (if major > 4 \<or> (major = 4 \<and> minor > 30) then ''#version 430''
                      else ''#version '' @ string_of_nat (nat major) @ printf_02d minor))\<rparr>, [])"
    using str scan fits[of True] fits[of False] snprintf_version_430 snprintf_version_320_es
    by (simp add: SetGLSLVersionString_def cap_version_def)
  moreover have "0 \<le> minor \<and> minor < 100 \<longrightarrow>
      printf_02d minor = [digit_char (nat minor div 10), digit_char (nat minor mod 10)]"
    by (simp add: printf_02d_two_digits)
  moreover have "100 \<le> minor \<longrightarrow>
      printf_02d minor = string_of_nat (nat minor) \<and> 3 \<le> length (printf_02d minor)"
    using printf_02d_three_digits[of minor] by blast
  moreover have "minor < 0 \<longrightarrow> printf_02d minor = CHR ''-'' # string_of_nat (nat (- minor))"
    by (simp add: printf_02d_negative)
  ultimately show ?thesis
    using major by blast
qed

theorem SetGLSLVersionString_parsed_witness:
  "\<forall>sg gl.
     SetGLSLVersionString (sg\<lparr>m_render_api := OpenGL\<rparr>)
         (gl\<lparr>GL_SHADING_LANGUAGE_VERSION := Some ''4.60 NVIDIA''\<rparr>) =
       Inr (sg\<lparr>m_render_api := OpenGL, m_glsl_version_string := ''#version 430''\<rparr>, []) \<and>
     SetGLSLVersionString (sg\<lparr>m_render_api := OpenGLES\<rparr>)
         (gl\<lparr>GL_SHADING_LANGUAGE_VERSION := Some ''OpenGL ES GLSL ES 3.10''\<rparr>) =
       Inr (sg\<lparr>m_render_api := OpenGLES, m_glsl_version_string := ''#version 310 es''\<rparr>, [])"
proof (intro allI conjI)
  fix sg :: shader_gen and gl :: gl_context
  have scan: "sscanf_d_dot_d (dropWhile (\<lambda>c. \<not> isdigit c) (c_str ''4.60 NVIDIA'')) =
                Inr (Scanned2 4 60)"
    by (simp add: eval_scan)
  show "SetGLSLVersionString (sg\<lparr>m_render_api := OpenGL\<rparr>)
              (gl\<lparr>GL_SHADING_LANGUAGE_VERSION := Some ''4.60 NVIDIA''\<rparr>) =
            Inr (sg\<lparr>m_render_api := OpenGL, m_glsl_version_string := ''#version 430''\<rparr>, [])"
    using SetGLSLVersionString_parsed[of "gl\<lparr>GL_SHADING_LANGUAGE_VERSION := Some ''4.60 NVIDIA''\<rparr>"
        "''4.60 NVIDIA''" 4 60 "sg\<lparr>m_render_api := OpenGL\<rparr>", OF _ scan]
    by simp
  have scan_es: "sscanf_d_dot_d (dropWhile (\<lambda>c. \<not> isdigit c) (c_str ''OpenGL ES GLSL ES 3.10'')) =
                Inr (Scanned2 3 10)"
    by (simp add: eval_scan)
  show "SetGLSLVersionString (sg\<lparr>m_render_api := OpenGLES\<rparr>)
              (gl\<lparr>GL_SHADING_LANGUAGE_VERSION := Some ''OpenGL ES GLSL ES 3.10''\<rparr>) =
            Inr (sg\<lparr>m_render_api := OpenGLES, m_glsl_version_string := ''#version 310 es''\<rparr>, [])"
    using SetGLSLVersionString_parsed[of "gl\<lparr>GL_SHADING_LANGUAGE_VERSION := Some ''OpenGL ES GLSL ES 3.10''\<rparr>"
        "''OpenGL ES GLSL ES 3.10''" 3 10 "sg\<lparr>m_render_api := OpenGLES\<rparr>", OF _ scan_es]
    by (simp add: printf_02d_def string_of_nat.simps digit_char_def)
qed

text \<open>
  Two versions that are read and lie below the ceiling of the desktop backend: the minor
  number 100 is written with three digits, the minor number \<open>-5\<close> with its sign.
\<close>

theorem SetGLSLVersionString_minor_not_two_digits:
  "SetGLSLVersionString
     \<lparr>m_render_api = OpenGL, m_glsl = True, m_supports_dual_source_blend = False,
      m_use_glsl_interface_blocks = False, m_use_glsl_binding_layout = False,
      m_glsl_version_string = []\<rparr>
     \<lparr>GLAD_GL_VERSION_3_2 = True, GLAD_GL_VERSION_4_2 = False, GLAD_GL_VERSION_4_3 = False,
      GLAD_GL_ES_VERSION_3_1 = False, GLAD_GL_ES_VERSION_3_2 = False,
      GLAD_GL_ARB_explicit_attrib_location = False,
      GLAD_GL_ARB_explicit_uniform_location = False,
      GLAD_GL_ARB_shading_language_420pack = False,
      GLAD_GL_ARB_shader_storage_buffer_object = False,
      GLAD_GL_EXT_blend_func_extended = False,
      GL_SHADING_LANGUAGE_VERSION = Some ''3.100''\<rparr> =
     Inr (\<lparr>m_render_api = OpenGL, m_glsl = True, m_supports_dual_source_blend = False,
           m_use_glsl_interface_blocks = False, m_use_glsl_binding_layout = False,
           m_glsl_version_string = ''#version 3100''\<rparr>, []) \<and>
   SetGLSLVersionString
     \<lparr>m_render_api = OpenGL, m_glsl = True, m_supports_dual_source_blend = False,
      m_use_glsl_interface_blocks = False, m_use_glsl_binding_layout = False,
      m_glsl_version_string = []\<rparr>
     \<lparr>GLAD_GL_VERSION_3_2 = True, GLAD_GL_VERSION_4_2 = False, GLAD_GL_VERSION_4_3 = False,
      GLAD_GL_ES_VERSION_3_1 = False, GLAD_GL_ES_VERSION_3_2 = False,
      GLAD_GL_ARB_explicit_attrib_location = False,
      GLAD_GL_ARB_explicit_uniform_location = False,
      GLAD_GL_ARB_shading_language_420pack = False,
      GLAD_GL_ARB_shader_storage_buffer_object = False,
      GLAD_GL_EXT_blend_func_extended = False,
      GL_SHADING_LANGUAGE_VERSION = Some ''4.-5''\<rparr> =
     Inr (\<lparr>m_render_api = OpenGL, m_glsl = True, m_supports_dual_source_blend = False,
           m_use_glsl_interface_blocks = False, m_use_glsl_binding_layout = False,
           m_glsl_version_string = ''#version 4-5''\<rparr>, [])"
proof -
  have scan_100: "sscanf_d_dot_d (dropWhile (\<lambda>c. \<not> isdigit c) (c_str ''3.100'')) =
                    Inr (Scanned2 3 100)"
    by (simp add: eval_scan)
  have scan_neg: "sscanf_d_dot_d (dropWhile (\<lambda>c. \<not> isdigit c) (c_str ''4.-5'')) =
                    Inr (Scanned2 4 (- 5))"
    by (simp add: eval_scan)
  have text_100: "snprintf_version False 3 100 = ''#version 3100''"
    by (simp add: snprintf_version_def printf_d_def printf_02d_def string_of_nat.simps
          digit_char_def)
  have text_neg: "snprintf_version False 4 (- 5) = ''#version 4-5''"
    by (simp add: snprintf_version_def printf_d_def printf_02d_def string_of_nat.simps
          digit_char_def)
  show ?thesis
    using scan_100 scan_neg text_100 text_neg
    by (simp add: SetGLSLVersionString_def cap_version_def)
qed

lemmas eval_num = string_of_nat.simps digit_char_def string_of_u32_def BoolToUInt32_def

section \<open>The constructor's results\<close>

lemma ShaderGen_D3D11:
  "ShaderGen D3D11 dsb gl =
     Inr (\<lparr>m_render_api = D3D11, m_glsl = False, m_supports_dual_source_blend = dsb,
           m_use_glsl_interface_blocks = False, m_use_glsl_binding_layout = False,
           m_glsl_version_string = []\<rparr>, [])"
  by (simp add: ShaderGen_def)

text \<open>
  For the HLSL family no emitter reads \<open>m_use_glsl_binding_layout\<close>, the member the
  constructor leaves unassigned there.
\<close>

lemma binding_layout_unread_by_HLSL:
  assumes "\<not> m_glsl sg" and "m_render_api sg = D3D11"
  shows "WriteHeader (sg\<lparr>m_use_glsl_binding_layout := b\<rparr>) gl = WriteHeader sg gl"
    and "WriteUniformBufferDeclaration (sg\<lparr>m_use_glsl_binding_layout := b\<rparr>) push =
           WriteUniformBufferDeclaration sg push"
    and "DeclareTexture (sg\<lparr>m_use_glsl_binding_layout := b\<rparr>) name index =
           DeclareTexture sg name index"
    and "DeclareTextureBuffer (sg\<lparr>m_use_glsl_binding_layout := b\<rparr>) name index is_int is_unsigned =
           DeclareTextureBuffer sg name index is_int is_unsigned"
    and "DeclareVertexEntryPoint (sg\<lparr>m_use_glsl_binding_layout := b\<rparr>) attributes
             num_color_outputs num_texcoord_outputs additional_outputs declare_vertex_id block_suffix =
           DeclareVertexEntryPoint sg attributes
             num_color_outputs num_texcoord_outputs additional_outputs declare_vertex_id block_suffix"
    and "DeclareFragmentEntryPoint (sg\<lparr>m_use_glsl_binding_layout := b\<rparr>) num_color_inputs
             num_texcoord_inputs additional_inputs declare_fragcoord num_color_outputs depth_output =
           DeclareFragmentEntryPoint sg num_color_inputs
             num_texcoord_inputs additional_inputs declare_fragcoord num_color_outputs depth_output"
  using assms
  by (simp_all add: WriteHeader_def header_version_def header_extensions_def
        header_api_macros_def header_precision_def WriteUniformBufferDeclaration_def
        DeclareTexture_def DeclareTextureBuffer_def DeclareVertexEntryPoint_def
        DeclareFragmentEntryPoint_def IsVulkan_def)

lemma ShaderGen_Vulkan:
  "ShaderGen Vulkan dsb gl =
     Inr (\<lparr>m_render_api = Vulkan, m_glsl = True, m_supports_dual_source_blend = dsb,
           m_use_glsl_interface_blocks = True, m_use_glsl_binding_layout = True,
           m_glsl_version_string = []\<rparr>, [])"
  by (simp add: ShaderGen_def IsVulkan_def)

lemma SetGLSLVersionString_fields:
  "SetGLSLVersionString sg gl = Inr (sg', logged) \<Longrightarrow>
   \<exists>es a b. sg' = sg\<lparr>m_glsl_version_string := snprintf_version es a b\<rparr>"
  by (auto simp: SetGLSLVersionString_def Let_def cap_version_def
           split: option.splits sum.splits scanned.splits if_splits)

lemma ShaderGen_GL:
  assumes "ShaderGen render_api dsb gl = Inr (sg, logged)"
      and "render_api = OpenGL \<or> render_api = OpenGLES"
  shows "\<exists>es a b. sg = \<lparr>m_render_api = render_api, m_glsl = True,
           m_supports_dual_source_blend = dsb,
           m_use_glsl_interface_blocks = (GLAD_GL_ES_VERSION_3_2 gl \<or> GLAD_GL_VERSION_3_2 gl),
           m_use_glsl_binding_layout = UseGLSLBindingLayout gl,
           m_glsl_version_string = snprintf_version es a b\<rparr>"
proof -
  let ?sg0 = "\<lparr>m_render_api = render_api, m_glsl = True, m_supports_dual_source_blend = dsb,
           m_use_glsl_interface_blocks = False, m_use_glsl_binding_layout = False,
           m_glsl_version_string = []\<rparr>"
  from assms obtain sg1 where 1: "SetGLSLVersionString ?sg0 gl = Inr (sg1, logged)"
    and 2: "sg = sg1\<lparr>m_use_glsl_interface_blocks :=
                             (IsVulkan sg1 \<or> GLAD_GL_ES_VERSION_3_2 gl \<or> GLAD_GL_VERSION_3_2 gl),
                          m_use_glsl_binding_layout :=
                             (IsVulkan sg1 \<or> UseGLSLBindingLayout gl)\<rparr>"
    by (auto simp: ShaderGen_def split: sum.splits if_splits)
  from SetGLSLVersionString_fields[OF 1] obtain es a b
    where "sg1 = ?sg0\<lparr>m_glsl_version_string := snprintf_version es a b\<rparr>" by blast
  then show ?thesis using 2 assms(2) by (auto simp: IsVulkan_def)
qed

text \<open>
  C6. Whenever the constructor returns, \<open>m_use_glsl_interface_blocks\<close> holds exactly for
  the Vulkan-style backend and for a GL backend (desktop or embedded) one of whose two
  version flags 3.2 is set; the D3D-style backend never has it. With the flags as the loader
  sets them from a context of version \<open>major.minor\<close>, that is: exactly when the version is
  at least 3.2.
\<close>

theorem ShaderGen_interface_blocks:
  assumes "ShaderGen render_api dsb gl = Inr (sg, logged)"
  shows "(m_use_glsl_interface_blocks sg \<longleftrightarrow>
            render_api = Vulkan \<or>
            ((render_api = OpenGL \<or> render_api = OpenGLES) \<and>
             (GLAD_GL_VERSION_3_2 gl \<or> GLAD_GL_ES_VERSION_3_2 gl))) \<and>
         (\<forall>major minor gl0. gl = glad_loaded render_api major minor gl0 \<longrightarrow>
            (m_use_glsl_interface_blocks sg \<longleftrightarrow>
               render_api = Vulkan \<or>
               ((render_api = OpenGL \<or> render_api = OpenGLES) \<and>
                (major > 3 \<or> (major = 3 \<and> minor \<ge> 2)))))"
proof (cases render_api)
  case D3D11
  then show ?thesis using assms by (auto simp: ShaderGen_D3D11)
next
  case Vulkan
  then show ?thesis using assms by (auto simp: ShaderGen_Vulkan)
next
  case OpenGL
  then show ?thesis using ShaderGen_GL[OF assms]
    by (auto simp: glad_loaded_def version_at_least_def)
next
  case OpenGLES
  then show ?thesis using ShaderGen_GL[OF assms]
    by (auto simp: glad_loaded_def version_at_least_def)
qed

theorem ShaderGen_interface_blocks_witness:
  "\<forall>dsb gl.
     (case ShaderGen OpenGL dsb (glad_loaded OpenGL 3 1 (gl\<lparr>GL_SHADING_LANGUAGE_VERSION := Some ''1.40''\<rparr>)) of
        Inl e \<Rightarrow> False | Inr (sg, logged) \<Rightarrow> \<not> m_use_glsl_interface_blocks sg) \<and>
     (case ShaderGen OpenGL dsb (glad_loaded OpenGL 3 2 (gl\<lparr>GL_SHADING_LANGUAGE_VERSION := Some ''1.50''\<rparr>)) of
        Inl e \<Rightarrow> False | Inr (sg, logged) \<Rightarrow> m_use_glsl_interface_blocks sg) \<and>
     (case ShaderGen OpenGLES dsb (glad_loaded OpenGLES 3 1 (gl\<lparr>GL_SHADING_LANGUAGE_VERSION := Some ''OpenGL ES GLSL ES 3.10''\<rparr>)) of
        Inl e \<Rightarrow> False | Inr (sg, logged) \<Rightarrow> \<not> m_use_glsl_interface_blocks sg) \<and>
     (case ShaderGen OpenGLES dsb (glad_loaded OpenGLES 3 2 (gl\<lparr>GL_SHADING_LANGUAGE_VERSION := Some ''OpenGL ES GLSL ES 3.20''\<rparr>)) of
        Inl e \<Rightarrow> False | Inr (sg, logged) \<Rightarrow> m_use_glsl_interface_blocks sg)"
proof (intro allI conjI)
  fix dsb :: bool and gl :: gl_context
  have ok: "\<exists>sg logged. ShaderGen api dsb (glad_loaded api major minor (gl\<lparr>GL_SHADING_LANGUAGE_VERSION := Some s\<rparr>)) = Inr (sg, logged)"
    if "sscanf_d_dot_d (dropWhile (\<lambda>c. \<not> isdigit c) (c_str s)) = Inr (Scanned2 a b)" for api major minor s a b
    using that by (cases api) (auto simp: ShaderGen_def SetGLSLVersionString_def glad_loaded_def Let_def cap_version_def)
  note ib = ShaderGen_interface_blocks[THEN conjunct2, rule_format, OF _ refl]
  show "case ShaderGen OpenGL dsb (glad_loaded OpenGL 3 1 (gl\<lparr>GL_SHADING_LANGUAGE_VERSION := Some ''1.40''\<rparr>)) of
        Inl e \<Rightarrow> False | Inr (sg, logged) \<Rightarrow> \<not> m_use_glsl_interface_blocks sg"
    using ok[of "''1.40''" 1 40 OpenGL 3 1] ib[of OpenGL dsb 3 1]
    by (auto simp: eval_scan)
  show "case ShaderGen OpenGL dsb (glad_loaded OpenGL 3 2 (gl\<lparr>GL_SHADING_LANGUAGE_VERSION := Some ''1.50''\<rparr>)) of
        Inl e \<Rightarrow> False | Inr (sg, logged) \<Rightarrow> m_use_glsl_interface_blocks sg"
    using ok[of "''1.50''" 1 50 OpenGL 3 2] ib[of OpenGL dsb 3 2]
    by (auto simp: eval_scan)
  show "case ShaderGen OpenGLES dsb (glad_loaded OpenGLES 3 1 (gl\<lparr>GL_SHADING_LANGUAGE_VERSION := Some ''OpenGL ES GLSL ES 3.10''\<rparr>)) of
        Inl e \<Rightarrow> False | Inr (sg, logged) \<Rightarrow> \<not> m_use_glsl_interface_blocks sg"
    using ok[of "''OpenGL ES GLSL ES 3.10''" 3 10 OpenGLES 3 1] ib[of OpenGLES dsb 3 1]
    by (auto simp: eval_scan)
  show "case ShaderGen OpenGLES dsb (glad_loaded OpenGLES 3 2 (gl\<lparr>GL_SHADING_LANGUAGE_VERSION := Some ''OpenGL ES GLSL ES 3.20''\<rparr>)) of
        Inl e \<Rightarrow> False | Inr (sg, logged) \<Rightarrow> m_use_glsl_interface_blocks sg"
    using ok[of "''OpenGL ES GLSL ES 3.20''" 3 20 OpenGLES 3 2] ib[of OpenGLES dsb 3 2]
    by (auto simp: eval_scan)
qed

section \<open>Small loops\<close>

lemma for_u32_0: "for_u32 0 body = []"
  by (simp add: for_u32_def)

lemma for_u32_1: "for_u32 1 body = body 0"
  by (simp add: for_u32_def)

lemma for_u32_2: "for_u32 2 body = body 0 @ body 1"
  by (simp add: for_u32_def upt_rec)

section \<open>The assertion of the fragment entry point\<close>

text \<open>
  C2, as the code has it. \<open>DeclareFragmentEntryPoint\<close> stops at its \<^verbatim>\<open>Assert\<close> exactly when
  the text is of the GLSL family, binding layout is in use, dual-source blend is not
  supported and more than one color output is asked for. Without binding layout, and for
  the HLSL family, no assertion stands in the way: the call returns its text.
\<close>

theorem DeclareFragmentEntryPoint_assertion:
  "DeclareFragmentEntryPoint sg num_color_inputs num_texcoord_inputs additional_inputs
       declare_fragcoord num_color_outputs depth_output = Inl AssertionFailed \<longleftrightarrow>
     m_glsl sg \<and> m_use_glsl_binding_layout sg \<and> \<not> m_supports_dual_source_blend sg \<and>
     1 < num_color_outputs"
  by (auto simp: DeclareFragmentEntryPoint_def glsl_fragment_outputs_def split: sum.splits)

theorem DeclareFragmentEntryPoint_assertion_witness:
  "DeclareFragmentEntryPoint
     \<lparr>m_render_api = Vulkan, m_glsl = True, m_supports_dual_source_blend = False,
      m_use_glsl_interface_blocks = True, m_use_glsl_binding_layout = True,
      m_glsl_version_string = []\<rparr> 0 1 [] False 2 False = Inl AssertionFailed"
  using DeclareFragmentEntryPoint_assertion[of
     "\<lparr>m_render_api = Vulkan, m_glsl = True, m_supports_dual_source_blend = False,
      m_use_glsl_interface_blocks = True, m_use_glsl_binding_layout = True,
      m_glsl_version_string = []\<rparr>" 0 1 "[]" False 2 False]
  by simp

theorem DeclareFragmentEntryPoint_two_outputs_no_assertion:
  "DeclareFragmentEntryPoint
     \<lparr>m_render_api = D3D11, m_glsl = False, m_supports_dual_source_blend = False,
      m_use_glsl_interface_blocks = False, m_use_glsl_binding_layout = False,
      m_glsl_version_string = []\<rparr> 0 1 [] False 2 False =
     Inr (''void main(\<newline>'' @
          ''  in float2 v_tex0 : TEXCOORD0,\<newline>'' @
          ''  out float4 o_col0 : SV_Target0,\<newline>'' @
          ''  out float4 o_col1 : SV_Target1)\<newline>'') \<and>
   DeclareFragmentEntryPoint
     \<lparr>m_render_api = OpenGLES, m_glsl = True, m_supports_dual_source_blend = False,
      m_use_glsl_interface_blocks = False, m_use_glsl_binding_layout = False,
      m_glsl_version_string = ''#version 300 es''\<rparr> 0 1 [] False 2 False =
     Inr (''in float2 v_tex0;\<newline>'' @
          ''out float4 o_col0;\<newline>'' @
          ''out float4 o_col1;\<newline>'' @
          ''\<newline>'' @
          ''void main()\<newline>'')"
  by (simp add: DeclareFragmentEntryPoint_def hlsl_fragment_parameters_def
        glsl_fragment_inputs_def glsl_fragment_outputs_def for_u32_0 for_u32_1 for_u32_2
        for_counted_def string_of_nat.simps digit_char_def)

section \<open>Texture and texel buffer on the Vulkan-style backend\<close>

text \<open>
  C3, as the code has it. For the Vulkan-style backend \<open>DeclareTexture\<close> writes set 0 and
  the binding \<open>index + 1\<close> (of type \<^verbatim>\<open>u32\<close>), and \<open>DeclareTextureBuffer\<close> writes set 0 and
  the binding \<open>index\<close> itself, with no offset; the buffer's sampler type is
  \<^verbatim>\<open>samplerBuffer\<close>, with the prefix \<^verbatim>\<open>u\<close> or \<^verbatim>\<open>i\<close> for integers.
\<close>

theorem DeclareTexture_Vulkan_bindings:
  assumes "m_glsl sg" and "m_render_api sg = Vulkan"
  shows "DeclareTexture sg name index =
           ''layout(set = 0, binding = '' @ string_of_u32 (index + 1) @ '') '' @
           ''uniform sampler2D '' @ name @ '';\<newline>'' \<and>
         DeclareTextureBuffer sg name index is_int is_unsigned =
           ''layout(set = 0, binding = '' @ string_of_u32 index @ '') '' @
           ''uniform '' @ (if is_int then (if is_unsigned then ''u'' else ''i'') else []) @
           ''samplerBuffer '' @ name @ '';\<newline>''"
  using assms by (simp add: DeclareTexture_def DeclareTextureBuffer_def IsVulkan_def)

theorem DeclareTexture_Vulkan_bindings_witness:
  "DeclareTexture
     \<lparr>m_render_api = Vulkan, m_glsl = True, m_supports_dual_source_blend = False,
      m_use_glsl_interface_blocks = True, m_use_glsl_binding_layout = True,
      m_glsl_version_string = []\<rparr> ''samp0'' 4 =
     ''layout(set = 0, binding = 5) uniform sampler2D samp0;\<newline>'' \<and>
   DeclareTextureBuffer
     \<lparr>m_render_api = Vulkan, m_glsl = True, m_supports_dual_source_blend = False,
      m_use_glsl_interface_blocks = True, m_use_glsl_binding_layout = True,
      m_glsl_version_string = []\<rparr> ''samp0'' 4 True True =
     ''layout(set = 0, binding = 4) uniform usamplerBuffer samp0;\<newline>''"
  using DeclareTexture_Vulkan_bindings[of
     "\<lparr>m_render_api = Vulkan, m_glsl = True, m_supports_dual_source_blend = False,
      m_use_glsl_interface_blocks = True, m_use_glsl_binding_layout = True,
      m_glsl_version_string = []\<rparr>" "''samp0''" 4 True True]
  by (simp add: string_of_u32_def string_of_nat.simps digit_char_def)

theorem DeclareTextureBuffer_Vulkan_no_offset:
  "DeclareTexture
     \<lparr>m_render_api = Vulkan, m_glsl = True, m_supports_dual_source_blend = False,
      m_use_glsl_interface_blocks = True, m_use_glsl_binding_layout = True,
      m_glsl_version_string = []\<rparr> ''samp0'' 0 =
     ''layout(set = 0, binding = 1) uniform sampler2D samp0;\<newline>'' \<and>
   DeclareTextureBuffer
     \<lparr>m_render_api = Vulkan, m_glsl = True, m_supports_dual_source_blend = False,
      m_use_glsl_interface_blocks = True, m_use_glsl_binding_layout = True,
      m_glsl_version_string = []\<rparr> ''samp0'' 0 False False =
     ''layout(set = 0, binding = 0) uniform samplerBuffer samp0;\<newline>''"
  by (simp add: DeclareTexture_def DeclareTextureBuffer_def IsVulkan_def string_of_u32_def
        string_of_nat.simps digit_char_def)

section \<open>The single color output under binding layout\<close>

text \<open>
  C10. With binding layout in use and no dual-source blend, the loop that declares the
  color outputs of the GLSL family runs once or not at all: for one output it writes
  \<^verbatim>\<open>layout(location = 00) out float4 o_col0;\<close>, for none it writes nothing, and for more
  the \<^verbatim>\<open>Assert\<close> before it stops the call. The entry point for one output is the inputs,
  the two optional aliases, that line, an empty line and \<^verbatim>\<open>void main()\<close>.
\<close>

theorem DeclareFragmentEntryPoint_location_00:
  assumes "m_glsl sg" and "m_use_glsl_binding_layout sg" and "\<not> m_supports_dual_source_blend sg"
  shows "glsl_fragment_outputs sg num_color_outputs =
           (if num_color_outputs = 1 then Inr ''layout(location = 00) out float4 o_col0;\<newline>''
            else if num_color_outputs = 0 then Inr []
            else Inl AssertionFailed) \<and>
         DeclareFragmentEntryPoint sg num_color_inputs num_texcoord_inputs additional_inputs
             declare_fragcoord 1 depth_output =
           Inr (glsl_fragment_inputs sg num_color_inputs num_texcoord_inputs additional_inputs @
                (if declare_fragcoord then ''#define v_pos gl_FragCoord\<newline>'' else []) @
                (if depth_output then ''#define o_depth gl_FragDepth\<newline>'' else []) @
                ''layout(location = 00) out float4 o_col0;\<newline>'' @
                ''\<newline>'' @
                ''void main()\<newline>'')"
proof -
  have small: "num_color_outputs \<le> 1 \<longleftrightarrow> num_color_outputs = 0 \<or> num_color_outputs = 1"
    by (auto simp: word_le_nat_alt word_unat_eq_iff le_Suc_eq)
  have one: "glsl_fragment_outputs sg 1 = Inr ''layout(location = 00) out float4 o_col0;\<newline>''"
    using assms
    by (simp add: glsl_fragment_outputs_def for_u32_1 string_of_nat.simps digit_char_def)
  have "glsl_fragment_outputs sg num_color_outputs =
           (if num_color_outputs = 1 then Inr ''layout(location = 00) out float4 o_col0;\<newline>''
            else if num_color_outputs = 0 then Inr []
            else Inl AssertionFailed)"
    using assms one small by (auto simp: glsl_fragment_outputs_def for_u32_0)
  then show ?thesis using assms(1) one by (simp add: DeclareFragmentEntryPoint_def)
qed

theorem DeclareFragmentEntryPoint_location_00_witness:
  "DeclareFragmentEntryPoint
     \<lparr>m_render_api = Vulkan, m_glsl = True, m_supports_dual_source_blend = False,
      m_use_glsl_interface_blocks = True, m_use_glsl_binding_layout = True,
      m_glsl_version_string = []\<rparr> 0 1 [] False 1 True =
   Inr (''layout(location = 0) in VertexData {\<newline>'' @
        ''  float2 v_tex0;\<newline>'' @
        ''};\<newline>'' @
        ''#define o_depth gl_FragDepth\<newline>'' @
        ''layout(location = 00) out float4 o_col0;\<newline>'' @
        ''\<newline>'' @
        ''void main()\<newline>'')"
  using DeclareFragmentEntryPoint_location_00[of
     "\<lparr>m_render_api = Vulkan, m_glsl = True, m_supports_dual_source_blend = False,
      m_use_glsl_interface_blocks = True, m_use_glsl_binding_layout = True,
      m_glsl_version_string = []\<rparr>" 2 0 1 "[]" False True]
  by (simp add: glsl_fragment_inputs_def IsVulkan_def for_u32_0 for_u32_1 string_of_nat.simps
        digit_char_def)

section \<open>The parameter list of the HLSL fragment entry point\<close>

lemma suffix_or_empty_append:
  "a = [] \<or> suffix t a \<Longrightarrow> b = [] \<or> suffix t b \<Longrightarrow> a @ b = [] \<or> suffix t (a @ b)"
  by (auto intro: suffix_appendI)

lemma suffix_or_empty_concat:
  "(\<And>x. suffix t (f x)) \<Longrightarrow> concat (map f xs) = [] \<or> suffix t (concat (map f xs))"
proof (induction xs)
  case Nil
  then show ?case by simp
next
  case (Cons x xs)
  have "f x = [] \<or> suffix t (f x)" using Cons.prems by simp
  then show ?case using Cons.IH[OF Cons.prems] suffix_or_empty_append[of "f x" t "concat (map f xs)"]
    by simp
qed

lemma same_length_suffixes: "suffix a s \<Longrightarrow> suffix b s \<Longrightarrow> length a = length b \<Longrightarrow> a = b"
  by (auto simp: suffix_def)

lemma hlsl_inputs_end_with_comma:
  "hlsl_fragment_parameters num_color_inputs num_texcoord_inputs additional_inputs
       declare_fragcoord 0 False = [] \<or>
   suffix '',\<newline>'' (hlsl_fragment_parameters num_color_inputs num_texcoord_inputs
       additional_inputs declare_fragcoord 0 False)"
proof -
  let ?A = "for_u32 num_color_inputs (\<lambda>i.
       ''  in float4 v_col'' @ string_of_nat i @ '' : COLOR'' @ string_of_nat i @ '',\<newline>'')"
  let ?B = "for_u32 num_texcoord_inputs (\<lambda>i.
       ''  in float2 v_tex'' @ string_of_nat i @ '' : TEXCOORD'' @ string_of_nat i @ '',\<newline>'')"
  let ?C = "for_counted num_texcoord_inputs additional_inputs (\<lambda>additional_counter (qualifiers, name).
       ''  '' @ qualifiers @ '' in '' @ name @ '' : TEXCOORD'' @
       string_of_u32 additional_counter @ '',\<newline>'')"
  let ?D = "if declare_fragcoord then ''  in float4 v_pos : SV_Position,\<newline>'' else []"
  have eq: "hlsl_fragment_parameters num_color_inputs num_texcoord_inputs additional_inputs
       declare_fragcoord 0 False = ?A @ ?B @ ?C @ ?D"
    by (simp add: hlsl_fragment_parameters_def for_u32_0)
  have a: "?A = [] \<or> suffix '',\<newline>'' ?A"
    unfolding for_u32_def by (rule suffix_or_empty_concat) (intro suffix_appendI, simp)
  have b: "?B = [] \<or> suffix '',\<newline>'' ?B"
    unfolding for_u32_def by (rule suffix_or_empty_concat) (intro suffix_appendI, simp)
  have c: "?C = [] \<or> suffix '',\<newline>'' ?C"
    unfolding for_counted_def
    by (rule suffix_or_empty_concat) (simp only: split_beta, intro suffix_appendI, simp)
  have d: "?D = [] \<or> suffix '',\<newline>'' ?D"
    by (simp add: suffix_to_prefix)
  show ?thesis
    unfolding eq
    by (rule suffix_or_empty_append[OF a suffix_or_empty_append[OF b suffix_or_empty_append[OF c d]]])
qed

text \<open>
  C4, as the code has it. For the HLSL family with no color output and no depth output,
  nothing closes the parameter list: the text is \<^verbatim>\<open>void main(\<close> and the inputs, each
  followed by a comma, so it ends with the opening parenthesis or with a comma, never
  with the closing parenthesis.
\<close>

theorem DeclareFragmentEntryPoint_HLSL_unclosed:
  assumes "\<not> m_glsl sg"
  shows "\<exists>text. DeclareFragmentEntryPoint sg num_color_inputs num_texcoord_inputs
                  additional_inputs declare_fragcoord 0 False = Inr text \<and>
                (suffix ''(\<newline>'' text \<or> suffix '',\<newline>'' text) \<and>
                \<not> suffix '')\<newline>'' text"
proof -
  let ?p = "hlsl_fragment_parameters num_color_inputs num_texcoord_inputs additional_inputs
              declare_fragcoord 0 False"
  let ?text = "''void main(\<newline>'' @ ?p"
  have eq: "DeclareFragmentEntryPoint sg num_color_inputs num_texcoord_inputs
              additional_inputs declare_fragcoord 0 False = Inr ?text"
    using assms by (simp add: DeclareFragmentEntryPoint_def)
  have ends: "suffix ''(\<newline>'' ?text \<or> suffix '',\<newline>'' ?text"
  proof (cases "?p = []")
    case True
    then show ?thesis by (simp add: suffix_to_prefix)
  next
    case False
    then have "suffix '',\<newline>'' ?p" using hlsl_inputs_end_with_comma by blast
    then show ?thesis by (blast intro: suffix_appendI)
  qed
  have "\<not> suffix '')\<newline>'' ?text"
  proof
    assume closed: "suffix '')\<newline>'' ?text"
    from ends show False
    proof
      assume "suffix ''(\<newline>'' ?text"
      from same_length_suffixes[OF closed this] show False by simp
    next
      assume "suffix '',\<newline>'' ?text"
      from same_length_suffixes[OF closed this] show False by simp
    qed
  qed
  with eq ends show ?thesis by blast
qed

theorem DeclareFragmentEntryPoint_HLSL_unclosed_witness:
  "DeclareFragmentEntryPoint
     \<lparr>m_render_api = D3D11, m_glsl = False, m_supports_dual_source_blend = False,
      m_use_glsl_interface_blocks = False, m_use_glsl_binding_layout = False,
      m_glsl_version_string = []\<rparr> 0 1 [] False 0 False =
     Inr (''void main(\<newline>'' @
          ''  in float2 v_tex0 : TEXCOORD0,\<newline>'') \<and>
   \<not> suffix '')\<newline>'' (''void main(\<newline>'' @
          ''  in float2 v_tex0 : TEXCOORD0,\<newline>'')"
  using DeclareFragmentEntryPoint_HLSL_unclosed[of
     "\<lparr>m_render_api = D3D11, m_glsl = False, m_supports_dual_source_blend = False,
      m_use_glsl_interface_blocks = False, m_use_glsl_binding_layout = False,
      m_glsl_version_string = []\<rparr>" 0 1 "[]" False]
  by (simp add: DeclareFragmentEntryPoint_def hlsl_fragment_parameters_def for_u32_0 for_u32_1
        for_counted_def string_of_nat.simps digit_char_def)

section \<open>Lines of a text\<close>

lemma text_lines_Nil_iff: "text_lines s = [] \<longleftrightarrow> s = []"
  by (cases s) (auto split: list.splits)

lemma ends_line_tail: "ends_line (c # cs) \<Longrightarrow> ends_line cs"
  by (auto simp: ends_line_def split: if_splits)

lemma text_lines_append: "ends_line a \<Longrightarrow> text_lines (a @ b) = text_lines a @ text_lines b"
proof (induction a)
  case Nil
  then show ?case by simp
next
  case (Cons c cs)
  have IH: "text_lines (cs @ b) = text_lines cs @ text_lines b"
    using Cons.IH ends_line_tail[OF Cons.prems] by simp
  show ?case
  proof (cases "c = CHR ''\<newline>''")
    case True
    then show ?thesis using IH by simp
  next
    case False
    then have "cs \<noteq> []" using Cons.prems by (auto simp: ends_line_def)
    then obtain l ls where "text_lines cs = l # ls"
      using text_lines_Nil_iff[of cs] by (cases "text_lines cs") auto
    then show ?thesis using False IH by simp
  qed
qed

lemma text_lines_line:
  "CHR ''\<newline>'' \<notin> set l \<Longrightarrow> text_lines (l @ CHR ''\<newline>'' # rest) = l # text_lines rest"
  by (induction l) auto

lemma ends_line_append: "ends_line a \<Longrightarrow> ends_line b \<Longrightarrow> ends_line (a @ b)"
  by (cases "b = []") (auto simp: ends_line_def)

lemma api_macro_lines_append:
  "ends_line a \<Longrightarrow> api_macro_lines (a @ b) = api_macro_lines a @ api_macro_lines b"
  by (simp add: api_macro_lines_def text_lines_append)

lemma no_api_macros_append: "no_api_macros a \<Longrightarrow> no_api_macros b \<Longrightarrow> no_api_macros (a @ b)"
  by (simp add: no_api_macros_def ends_line_append api_macro_lines_append)

lemma no_api_macros_Nil: "no_api_macros []"
  by (simp add: no_api_macros_def ends_line_def api_macro_lines_def)

lemma no_api_macros_if:
  "no_api_macros a \<Longrightarrow> no_api_macros b \<Longrightarrow> no_api_macros (if c then a else b)"
  by simp

lemma api_macro_lines_after:
  "no_api_macros a \<Longrightarrow> api_macro_lines (a @ b) = api_macro_lines b"
  by (simp add: no_api_macros_def api_macro_lines_append)

lemmas eval_lines = no_api_macros_def ends_line_def api_macro_lines_def

section \<open>The parts of the header\<close>

lemma digit_char_not_newline: "d < 10 \<Longrightarrow> digit_char d \<noteq> CHR ''\<newline>''"
proof -
  assume "d < 10"
  then have "digit_char d \<in> set ''0123456789''"
    unfolding digit_char_def by (intro nth_mem) simp
  then show ?thesis by auto
qed

lemma string_of_nat_no_newline: "CHR ''\<newline>'' \<notin> set (string_of_nat n)"
proof (induction n rule: string_of_nat.induct)
  case (1 n)
  show ?case
  proof (cases "n < 10")
    case True
    then show ?thesis using digit_char_not_newline[of n] by (simp add: string_of_nat.simps)
  next
    case False
    then show ?thesis using "1.IH" digit_char_not_newline[of "n mod 10"]
      by (subst string_of_nat.simps) simp
  qed
qed

lemma snprintf_version_no_newline: "CHR ''\<newline>'' \<notin> set (snprintf_version es a b)"
proof -
  have "CHR ''\<newline>'' \<notin> set (''#version '' @ printf_d a @ printf_02d b @
                               (if es \<and> a \<ge> 3 then '' es'' else []))"
    by (auto simp: printf_d_def printf_02d_def string_of_nat_no_newline)
  then show ?thesis
    unfolding snprintf_version_def by (blast dest: in_set_takeD)
qed

lemma snprintf_version_not_macro: "\<not> prefix ''#define API_'' (snprintf_version es a b)"
  by (simp add: snprintf_version_def)

lemma header_version_no_api_macros:
  assumes "ShaderGen render_api dsb gl = Inr (sg, logged)"
  shows "no_api_macros (header_version sg)"
proof (cases render_api)
  case D3D11
  then show ?thesis using assms by (auto simp: ShaderGen_D3D11 header_version_def eval_lines)
next
  case Vulkan
  then show ?thesis using assms by (auto simp: ShaderGen_Vulkan header_version_def eval_lines)
next
  case OpenGL
  then obtain es a b where "m_render_api sg = OpenGL"
      "m_glsl_version_string sg = snprintf_version es a b"
    using ShaderGen_GL[OF assms] by auto
  then show ?thesis
    using text_lines_line[OF snprintf_version_no_newline, of es a b "''\<newline>''"]
    by (simp add: header_version_def eval_lines snprintf_version_not_macro)
next
  case OpenGLES
  then obtain es a b where "m_render_api sg = OpenGLES"
      "m_glsl_version_string sg = snprintf_version es a b"
    using ShaderGen_GL[OF assms] by auto
  then show ?thesis
    using text_lines_line[OF snprintf_version_no_newline, of es a b "''\<newline>''"]
    by (simp add: header_version_def eval_lines snprintf_version_not_macro)
qed

lemma header_extensions_no_api_macros: "no_api_macros (header_extensions sg gl)"
  unfolding header_extensions_def
  by (intro no_api_macros_if no_api_macros_append no_api_macros_Nil; simp add: eval_lines)

lemma header_precision_no_api_macros: "no_api_macros (header_precision sg gl)"
  unfolding header_precision_def
  by (intro no_api_macros_if no_api_macros_append no_api_macros_Nil; simp add: eval_lines)

lemma glsl_shim_no_api_macros: "no_api_macros glsl_shim"
  unfolding glsl_shim_def
  by (intro no_api_macros_append; simp add: eval_lines)

lemma hlsl_shim_no_api_macros: "no_api_macros hlsl_shim"
  unfolding hlsl_shim_def
  by (intro no_api_macros_append; simp add: eval_lines)

lemma header_api_macros_lines:
  "ends_line (header_api_macros sg) \<and>
   api_macro_lines (header_api_macros sg) =
     (case m_render_api sg of
        OpenGL \<Rightarrow> [''#define API_OPENGL 1'', ''#define API_OPENGL_ES 0'',
                   ''#define API_D3D11 0'', ''#define API_VULKAN 0'']
      | OpenGLES \<Rightarrow> [''#define API_OPENGL 0'', ''#define API_OPENGL_ES 1'',
                     ''#define API_D3D11 0'', ''#define API_VULKAN 0'']
      | D3D11 \<Rightarrow> [''#define API_OPENGL 0'', ''#define API_OPENGL_ES 0'',
                  ''#define API_D3D11 1'', ''#define API_VULKAN 0'']
      | Vulkan \<Rightarrow> [''#define API_OPENGL 0'', ''#define API_OPENGL_ES 0'',
                   ''#define API_D3D11 0'', ''#define API_VULKAN 1''])"
  by (cases "m_render_api sg")
     (simp_all add: header_api_macros_def DefineMacro_def eval_num eval_lines)

text \<open>
  C7. For a generator the constructor returned, the lines of the header that define a
  backend-identity macro are exactly four, in the order \<^verbatim>\<open>API_OPENGL\<close>,
  \<^verbatim>\<open>API_OPENGL_ES\<close>, \<^verbatim>\<open>API_D3D11\<close>, \<^verbatim>\<open>API_VULKAN\<close>; each is defined as 0 or 1, and
  the one defined as 1 is the one of the generator's backend.
\<close>

theorem WriteHeader_api_macros:
  assumes "ShaderGen render_api dsb gl = Inr (sg, logged)"
  shows "api_macro_lines (WriteHeader sg gl') =
     (case render_api of
        OpenGL \<Rightarrow> [''#define API_OPENGL 1'', ''#define API_OPENGL_ES 0'',
                   ''#define API_D3D11 0'', ''#define API_VULKAN 0'']
      | OpenGLES \<Rightarrow> [''#define API_OPENGL 0'', ''#define API_OPENGL_ES 1'',
                     ''#define API_D3D11 0'', ''#define API_VULKAN 0'']
      | D3D11 \<Rightarrow> [''#define API_OPENGL 0'', ''#define API_OPENGL_ES 0'',
                  ''#define API_D3D11 1'', ''#define API_VULKAN 0'']
      | Vulkan \<Rightarrow> [''#define API_OPENGL 0'', ''#define API_OPENGL_ES 0'',
                   ''#define API_D3D11 0'', ''#define API_VULKAN 1''])"
proof -
  have api: "m_render_api sg = render_api"
    using assms ShaderGen_GL[OF assms]
    by (cases render_api) (auto simp: ShaderGen_D3D11 ShaderGen_Vulkan)
  have rest: "no_api_macros (header_precision sg gl' @
                (if m_glsl sg then glsl_shim else hlsl_shim) @ ''\<newline>'')"
    by (intro no_api_macros_append no_api_macros_if header_precision_no_api_macros
          glsl_shim_no_api_macros hlsl_shim_no_api_macros)
       (simp add: eval_lines)
  have "api_macro_lines (WriteHeader sg gl') =
          api_macro_lines (header_api_macros sg) @
          api_macro_lines (header_precision sg gl' @
                (if m_glsl sg then glsl_shim else hlsl_shim) @ ''\<newline>'')"
    unfolding WriteHeader_def
    using header_version_no_api_macros[OF assms] header_extensions_no_api_macros[of sg gl']
      header_api_macros_lines[of sg]
    by (simp only: api_macro_lines_after api_macro_lines_append)
  then show ?thesis
    using rest header_api_macros_lines[of sg] api
    by (simp add: no_api_macros_def)
qed


theorem WriteHeader_api_macros_witness:
  "\<forall>dsb gl gl'.
     (case ShaderGen D3D11 dsb gl of
        Inl e \<Rightarrow> False
      | Inr (sg, logged) \<Rightarrow>
          api_macro_lines (WriteHeader sg gl') =
            [''#define API_OPENGL 0'', ''#define API_OPENGL_ES 0'',
             ''#define API_D3D11 1'', ''#define API_VULKAN 0''])"
proof (intro allI)
  fix dsb :: bool and gl gl' :: gl_context
  show "case ShaderGen D3D11 dsb gl of
        Inl e \<Rightarrow> False
      | Inr (sg, logged) \<Rightarrow>
          api_macro_lines (WriteHeader sg gl') =
            [''#define API_OPENGL 0'', ''#define API_OPENGL_ES 0'',
             ''#define API_D3D11 1'', ''#define API_VULKAN 0'']"
    using WriteHeader_api_macros[OF ShaderGen_D3D11, of dsb gl']
    by (simp add: ShaderGen_D3D11)
qed

section \<open>Texts that lack a word\<close>

lemma sublist_append_right: "sublist x b \<Longrightarrow> sublist x (a @ b)"
  by (simp add: sublist_append)

lemma sublist_append_left: "sublist x a \<Longrightarrow> sublist x (a @ b)"
  by (simp add: sublist_append)

text \<open>A word without a newline that occurs in a text occurs in one of its lines.\<close>

lemma sublist_append_lines:
  assumes x: "CHR ''\<newline>'' \<notin> set x" and a: "ends_line a"
  shows "sublist x (a @ b) \<longleftrightarrow> sublist x a \<or> sublist x b"
proof
  assume "sublist x (a @ b)"
  then consider "sublist x a" | "sublist x b"
    | xs1 xs2 where "x = xs1 @ xs2" "suffix xs1 a" "prefix xs2 b"
    by (auto simp: sublist_append)
  then show "sublist x a \<or> sublist x b"
  proof cases
    case 3
    show ?thesis
    proof (cases "xs1 = []")
      case True
      then show ?thesis using 3 by auto
    next
      case False
      from 3(2) obtain zs where zs: "a = zs @ xs1" by (auto simp: suffix_def)
      then have "last a = last xs1" using False by simp
      moreover have "a \<noteq> []" using zs False by simp
      ultimately have "last xs1 = CHR ''\<newline>''" using a by (simp add: ends_line_def)
      then have "CHR ''\<newline>'' \<in> set xs1" using False last_in_set by metis
      then show ?thesis using x 3(1) by simp
    qed
  qed auto
next
  assume "sublist x a \<or> sublist x b"
  then show "sublist x (a @ b)" by (auto simp: sublist_append)
qed

lemma lacks_append:
  "CHR ''\<newline>'' \<notin> set x \<Longrightarrow> ends_line a \<and> \<not> sublist x a \<Longrightarrow>
   ends_line b \<and> \<not> sublist x b \<Longrightarrow> ends_line (a @ b) \<and> \<not> sublist x (a @ b)"
  by (simp add: sublist_append_lines ends_line_append)

lemma lacks_if:
  "ends_line a \<and> \<not> sublist x a \<Longrightarrow> ends_line b \<and> \<not> sublist x b \<Longrightarrow>
   ends_line (if c then a else b) \<and> \<not> sublist x (if c then a else b)"
  by simp

lemmas eval_lacks = ends_line_def sublist_code

section \<open>The texts for the Vulkan-style and the D3D-style backend\<close>

lemmas eval_header = WriteHeader_def header_version_def header_extensions_def
  header_api_macros_def header_precision_def DefineMacro_def eval_num

lemma WriteHeader_Vulkan:
  "WriteHeader \<lparr>m_render_api = Vulkan, m_glsl = True, m_supports_dual_source_blend = dsb,
       m_use_glsl_interface_blocks = True, m_use_glsl_binding_layout = True,
       m_glsl_version_string = []\<rparr> gl =
     ''#version 450 core\<newline>'' @
     ''\<newline>'' @
     ''#define API_OPENGL 0\<newline>'' @
     ''#define API_OPENGL_ES 0\<newline>'' @
     ''#define API_D3D11 0\<newline>'' @
     ''#define API_VULKAN 1\<newline>'' @
     glsl_shim @
     ''\<newline>''"
  by (simp add: eval_header)

lemma GenerateScreenQuadVertexShader_Vulkan:
  "GenerateScreenQuadVertexShader \<lparr>m_render_api = Vulkan, m_glsl = True,
       m_supports_dual_source_blend = dsb, m_use_glsl_interface_blocks = True,
       m_use_glsl_binding_layout = True, m_glsl_version_string = []\<rparr> gl =
     WriteHeader \<lparr>m_render_api = Vulkan, m_glsl = True,
       m_supports_dual_source_blend = dsb, m_use_glsl_interface_blocks = True,
       m_use_glsl_binding_layout = True, m_glsl_version_string = []\<rparr> gl @
     ''layout(location = 0) out VertexData {\<newline>'' @
     ''  float2 v_tex0;\<newline>'' @
     ''};\<newline>'' @
     ''#define v_pos gl_Position\<newline>'' @
     ''\<newline>'' @
     ''#define v_id uint(gl_VertexIndex)\<newline>'' @
     ''\<newline>'' @
     ''void main()\<newline>'' @
     screen_quad_vertex_body"
  by (simp add: GenerateScreenQuadVertexShader_def DeclareVertexEntryPoint_def IsVulkan_def
        default_output_block_suffix_def for_u32_0 for_u32_1 for_counted_def eval_num)

lemma GenerateFillFragmentShader_Vulkan:
  "GenerateFillFragmentShader \<lparr>m_render_api = Vulkan, m_glsl = True,
       m_supports_dual_source_blend = dsb, m_use_glsl_interface_blocks = True,
       m_use_glsl_binding_layout = True, m_glsl_version_string = []\<rparr> gl =
     Inr (WriteHeader \<lparr>m_render_api = Vulkan, m_glsl = True,
            m_supports_dual_source_blend = dsb, m_use_glsl_interface_blocks = True,
            m_use_glsl_binding_layout = True, m_glsl_version_string = []\<rparr> gl @
          ''layout(push_constant) uniform PushConstants\<newline>'' @
          ''{\<newline>'' @
          ''float4 u_fill_color;\<newline>'' @
          ''};\<newline>'' @
          ''\<newline>'' @
          ''layout(location = 0) in VertexData {\<newline>'' @
          ''  float2 v_tex0;\<newline>'' @
          ''};\<newline>'' @
          ''#define o_depth gl_FragDepth\<newline>'' @
          (if dsb then ''layout(location = 0, index = 0) out float4 o_col0;\<newline>''
           else ''layout(location = 00) out float4 o_col0;\<newline>'') @
          ''\<newline>'' @
          ''void main()\<newline>'' @
          fill_fragment_body)"
  by (simp add: GenerateFillFragmentShader_def DeclareFragmentEntryPoint_def
        glsl_fragment_inputs_def glsl_fragment_outputs_def DeclareUniformBuffer_def
        WriteUniformBufferDeclaration_def IsVulkan_def for_u32_0 for_u32_1 eval_num)

lemma GenerateFillFragmentShader_D3D11:
  "GenerateFillFragmentShader \<lparr>m_render_api = D3D11, m_glsl = False,
       m_supports_dual_source_blend = dsb, m_use_glsl_interface_blocks = False,
       m_use_glsl_binding_layout = False, m_glsl_version_string = []\<rparr> gl =
     Inr (WriteHeader \<lparr>m_render_api = D3D11, m_glsl = False,
            m_supports_dual_source_blend = dsb, m_use_glsl_interface_blocks = False,
            m_use_glsl_binding_layout = False, m_glsl_version_string = []\<rparr> gl @
          ''cbuffer UBOBlock : register(b0)\<newline>'' @
          ''{\<newline>'' @
          ''float4 u_fill_color;\<newline>'' @
          ''};\<newline>'' @
          ''\<newline>'' @
          ''void main(\<newline>'' @
          ''  in float2 v_tex0 : TEXCOORD0,\<newline>'' @
          ''  out float o_depth : SV_Depth,\<newline>'' @
          ''  out float4 o_col0 : SV_Target0)\<newline>'' @
          fill_fragment_body)"
  by (simp add: GenerateFillFragmentShader_def DeclareFragmentEntryPoint_def
        hlsl_fragment_parameters_def DeclareUniformBuffer_def
        WriteUniformBufferDeclaration_def IsVulkan_def for_u32_0 for_u32_1 for_counted_def
        eval_num)

lemma WriteHeader_Vulkan_lacks:
  assumes "CHR ''\<newline>'' \<notin> set x" and "\<not> sublist x glsl_shim"
      and "\<not> sublist x ''#version 450 core\<newline>''"
      and "\<not> sublist x ''#define API_OPENGL 0\<newline>''"
      and "\<not> sublist x ''#define API_OPENGL_ES 0\<newline>''"
      and "\<not> sublist x ''#define API_D3D11 0\<newline>''"
      and "\<not> sublist x ''#define API_VULKAN 1\<newline>''"
      and "\<not> sublist x ''\<newline>''"
  shows "ends_line (WriteHeader \<lparr>m_render_api = Vulkan, m_glsl = True,
            m_supports_dual_source_blend = dsb, m_use_glsl_interface_blocks = True,
            m_use_glsl_binding_layout = True, m_glsl_version_string = []\<rparr> gl) \<and>
         \<not> sublist x (WriteHeader \<lparr>m_render_api = Vulkan, m_glsl = True,
            m_supports_dual_source_blend = dsb, m_use_glsl_interface_blocks = True,
            m_use_glsl_binding_layout = True, m_glsl_version_string = []\<rparr> gl)"
proof -
  have shim: "ends_line glsl_shim" using glsl_shim_no_api_macros by (simp add: no_api_macros_def)
  show ?thesis
    unfolding WriteHeader_Vulkan
    using assms shim
    by (intro lacks_append conjI) (simp_all add: ends_line_def)
qed

lemma glsl_shim_lacks_gl_VertexID: "\<not> sublist ''gl_VertexID'' glsl_shim"
proof -
  have "ends_line glsl_shim \<and> \<not> sublist ''gl_VertexID'' glsl_shim"
    unfolding glsl_shim_def
    by (intro lacks_append; simp add: eval_lacks)
  then show ?thesis by simp
qed

lemma glsl_shim_lacks_binding: "\<not> sublist ''binding'' glsl_shim"
proof -
  have "ends_line glsl_shim \<and> \<not> sublist ''binding'' glsl_shim"
    unfolding glsl_shim_def
    by (intro lacks_append; simp add: eval_lacks)
  then show ?thesis by simp
qed

lemma ShaderGen_GL_returns:
  assumes "render_api = OpenGL \<or> render_api = OpenGLES"
      and "GL_SHADING_LANGUAGE_VERSION gl = Some str"
      and "sscanf_d_dot_d (dropWhile (\<lambda>c. \<not> isdigit c) (c_str str)) = Inr (Scanned2 a b)"
  shows "\<exists>sg. ShaderGen render_api dsb gl = Inr (sg, [])"
  using assms
  by (auto simp: ShaderGen_def SetGLSLVersionString_def Let_def cap_version_def)

text \<open>
  C8. The full-screen-quad vertex shader of a desktop-GL generator holds the block that
  flips \<^verbatim>\<open>v_pos.y\<close> between \<^verbatim>\<open>#if API_OPENGL || API_OPENGL_ES || API_VULKAN\<close> and
  \<^verbatim>\<open>#endif\<close>, and defines \<^verbatim>\<open>API_OPENGL\<close> as 1. The one of a Vulkan-style generator
  defines \<^verbatim>\<open>v_id\<close> as \<^verbatim>\<open>uint(gl_VertexIndex)\<close>, and \<^verbatim>\<open>gl_VertexID\<close> occurs nowhere in it.
\<close>

theorem GenerateScreenQuadVertexShader_backends:
  "(ShaderGen OpenGL dsb gl = Inr (sg, logged) \<longrightarrow>
      sublist (''  #if API_OPENGL || API_OPENGL_ES || API_VULKAN\<newline>'' @
               ''    v_pos.y = -v_pos.y;\<newline>'' @
               ''  #endif\<newline>'') (GenerateScreenQuadVertexShader sg gl) \<and>
      sublist ''#define API_OPENGL 1\<newline>'' (GenerateScreenQuadVertexShader sg gl)) \<and>
   (ShaderGen Vulkan dsb gl = Inr (vk, logged') \<longrightarrow>
      sublist ''#define v_id uint(gl_VertexIndex)\<newline>'' (GenerateScreenQuadVertexShader vk gl) \<and>
      \<not> sublist ''gl_VertexID'' (GenerateScreenQuadVertexShader vk gl))"
proof (intro conjI impI)
  assume gen: "ShaderGen OpenGL dsb gl = Inr (sg, logged)"
  have "sublist (''  #if API_OPENGL || API_OPENGL_ES || API_VULKAN\<newline>'' @
               ''    v_pos.y = -v_pos.y;\<newline>'' @
               ''  #endif\<newline>'') screen_quad_vertex_body"
    unfolding sublist_def screen_quad_vertex_body_def
    by (rule exI[of _ "''\<newline>'' @ ''{\<newline>'' @
           ''  v_tex0 = float2(float((v_id << 1) & 2u), float(v_id & 2u));\<newline>'' @
           ''  v_pos = float4(v_tex0 * float2(2.0f, -2.0f) + float2(-1.0f, 1.0f), 0.0f, 1.0f);\<newline>''"],
        rule exI[of _ "''}\<newline>''"]) simp
  then show "sublist (''  #if API_OPENGL || API_OPENGL_ES || API_VULKAN\<newline>'' @
               ''    v_pos.y = -v_pos.y;\<newline>'' @
               ''  #endif\<newline>'') (GenerateScreenQuadVertexShader sg gl)"
    unfolding GenerateScreenQuadVertexShader_def by (intro sublist_append_right)
  have "m_render_api sg = OpenGL" using ShaderGen_GL[OF gen] by auto
  then have "sublist ''#define API_OPENGL 1\<newline>'' (header_api_macros sg)"
    by (simp add: header_api_macros_def DefineMacro_def eval_num sublist_code)
  then show "sublist ''#define API_OPENGL 1\<newline>'' (GenerateScreenQuadVertexShader sg gl)"
    unfolding GenerateScreenQuadVertexShader_def WriteHeader_def
    by (intro sublist_append_left sublist_append_right[of _ "header_api_macros sg @ _"]
          sublist_append_right[of _ "header_extensions sg gl @ _"])
next
  assume gen: "ShaderGen Vulkan dsb gl = Inr (vk, logged')"
  then have vk: "vk = \<lparr>m_render_api = Vulkan, m_glsl = True,
       m_supports_dual_source_blend = dsb, m_use_glsl_interface_blocks = True,
       m_use_glsl_binding_layout = True, m_glsl_version_string = []\<rparr>"
    by (simp add: ShaderGen_Vulkan)
  show "sublist ''#define v_id uint(gl_VertexIndex)\<newline>'' (GenerateScreenQuadVertexShader vk gl)"
    unfolding vk GenerateScreenQuadVertexShader_Vulkan sublist_def
    by (rule exI[of _ "WriteHeader vk gl @
           ''layout(location = 0) out VertexData {\<newline>'' @
           ''  float2 v_tex0;\<newline>'' @
           ''};\<newline>'' @
           ''#define v_pos gl_Position\<newline>'' @
           ''\<newline>''"],
        rule exI[of _ "''\<newline>'' @ ''void main()\<newline>'' @ screen_quad_vertex_body"])
       (simp add: vk)
  have "ends_line (GenerateScreenQuadVertexShader vk gl) \<and>
        \<not> sublist ''gl_VertexID'' (GenerateScreenQuadVertexShader vk gl)"
    unfolding vk GenerateScreenQuadVertexShader_Vulkan screen_quad_vertex_body_def
    by (intro lacks_append WriteHeader_Vulkan_lacks glsl_shim_lacks_gl_VertexID;
        simp add: eval_lacks)
  then show "\<not> sublist ''gl_VertexID'' (GenerateScreenQuadVertexShader vk gl)" by simp
qed

theorem GenerateScreenQuadVertexShader_backends_witness:
  "\<forall>dsb gl.
     (case ShaderGen OpenGL dsb (gl\<lparr>GL_SHADING_LANGUAGE_VERSION := Some ''4.60''\<rparr>) of
        Inl e \<Rightarrow> False
      | Inr (sg, logged) \<Rightarrow>
          sublist (''  #if API_OPENGL || API_OPENGL_ES || API_VULKAN\<newline>'' @
                   ''    v_pos.y = -v_pos.y;\<newline>'' @
                   ''  #endif\<newline>'')
            (GenerateScreenQuadVertexShader sg (gl\<lparr>GL_SHADING_LANGUAGE_VERSION := Some ''4.60''\<rparr>))) \<and>
     (case ShaderGen Vulkan dsb gl of
        Inl e \<Rightarrow> False
      | Inr (vk, logged) \<Rightarrow>
          sublist ''#define v_id uint(gl_VertexIndex)\<newline>''
            (GenerateScreenQuadVertexShader vk gl) \<and>
          \<not> sublist ''gl_VertexID'' (GenerateScreenQuadVertexShader vk gl))"
proof (intro allI conjI)
  fix dsb :: bool and gl :: gl_context
  let ?gl = "gl\<lparr>GL_SHADING_LANGUAGE_VERSION := Some ''4.60''\<rparr>"
  have "sscanf_d_dot_d (dropWhile (\<lambda>c. \<not> isdigit c) (c_str ''4.60'')) = Inr (Scanned2 4 60)"
    by (simp add: eval_scan)
  then obtain sg where gen: "ShaderGen OpenGL dsb ?gl = Inr (sg, [])"
    using ShaderGen_GL_returns[of OpenGL ?gl "''4.60''" 4 60 dsb] by auto
  show "case ShaderGen OpenGL dsb ?gl of
        Inl e \<Rightarrow> False
      | Inr (sg, logged) \<Rightarrow>
          sublist (''  #if API_OPENGL || API_OPENGL_ES || API_VULKAN\<newline>'' @
                   ''    v_pos.y = -v_pos.y;\<newline>'' @
                   ''  #endif\<newline>'')
            (GenerateScreenQuadVertexShader sg ?gl)"
    using GenerateScreenQuadVertexShader_backends[THEN conjunct1, rule_format, OF gen]
    by (simp add: gen)
  show "case ShaderGen Vulkan dsb gl of
        Inl e \<Rightarrow> False
      | Inr (vk, logged) \<Rightarrow>
          sublist ''#define v_id uint(gl_VertexIndex)\<newline>''
            (GenerateScreenQuadVertexShader vk gl) \<and>
          \<not> sublist ''gl_VertexID'' (GenerateScreenQuadVertexShader vk gl)"
    using GenerateScreenQuadVertexShader_backends[THEN conjunct2, rule_format,
            OF ShaderGen_Vulkan, of dsb gl]
    by (simp add: ShaderGen_Vulkan)
qed

text \<open>
  C9. The solid-fill fragment shader of the D3D-style generator holds the output parameter
  \<^verbatim>\<open>out float o_depth : SV_Depth\<close> and the block \<^verbatim>\<open>cbuffer UBOBlock : register(b0)\<close>.
  The one of the Vulkan-style generator holds the block
  \<^verbatim>\<open>layout(push_constant) uniform PushConstants\<close>, and the word \<^verbatim>\<open>binding\<close> occurs nowhere
  in it: no descriptor-set binding is declared. Neither call stops at the assertion.
\<close>

theorem GenerateFillFragmentShader_backends:
  "(ShaderGen D3D11 dsb gl = Inr (sg, logged) \<longrightarrow>
      (\<exists>text. GenerateFillFragmentShader sg gl = Inr text \<and>
         sublist ''  out float o_depth : SV_Depth'' text \<and>
         sublist ''cbuffer UBOBlock : register(b0)'' text)) \<and>
   (ShaderGen Vulkan dsb gl = Inr (vk, logged') \<longrightarrow>
      (\<exists>text. GenerateFillFragmentShader vk gl = Inr text \<and>
         sublist ''layout(push_constant) uniform PushConstants'' text \<and>
         \<not> sublist ''binding'' text))"
proof (intro conjI impI)
  assume gen: "ShaderGen D3D11 dsb gl = Inr (sg, logged)"
  then have sg: "sg = \<lparr>m_render_api = D3D11, m_glsl = False,
       m_supports_dual_source_blend = dsb, m_use_glsl_interface_blocks = False,
       m_use_glsl_binding_layout = False, m_glsl_version_string = []\<rparr>"
    by (simp add: ShaderGen_D3D11)
  let ?shader = "WriteHeader sg gl @
          ''cbuffer UBOBlock : register(b0)\<newline>'' @
          ''{\<newline>'' @
          ''float4 u_fill_color;\<newline>'' @
          ''};\<newline>'' @
          ''\<newline>'' @
          ''void main(\<newline>'' @
          ''  in float2 v_tex0 : TEXCOORD0,\<newline>'' @
          ''  out float o_depth : SV_Depth,\<newline>'' @
          ''  out float4 o_col0 : SV_Target0)\<newline>'' @
          fill_fragment_body"
  have shader: "GenerateFillFragmentShader sg gl = Inr ?shader"
    unfolding sg by (rule GenerateFillFragmentShader_D3D11)
  have depth: "sublist ''  out float o_depth : SV_Depth'' ?shader"
    unfolding sublist_def
    by (rule exI[of _ "WriteHeader sg gl @
          ''cbuffer UBOBlock : register(b0)\<newline>'' @
          ''{\<newline>'' @
          ''float4 u_fill_color;\<newline>'' @
          ''};\<newline>'' @
          ''\<newline>'' @
          ''void main(\<newline>'' @
          ''  in float2 v_tex0 : TEXCOORD0,\<newline>''"],
        rule exI[of _ "'',\<newline>'' @ ''  out float4 o_col0 : SV_Target0)\<newline>'' @
          fill_fragment_body"]) simp
  have cbuffer: "sublist ''cbuffer UBOBlock : register(b0)'' ?shader"
    unfolding sublist_def
    by (rule exI[of _ "WriteHeader sg gl"],
        rule exI[of _ "''\<newline>'' @
          ''{\<newline>'' @
          ''float4 u_fill_color;\<newline>'' @
          ''};\<newline>'' @
          ''\<newline>'' @
          ''void main(\<newline>'' @
          ''  in float2 v_tex0 : TEXCOORD0,\<newline>'' @
          ''  out float o_depth : SV_Depth,\<newline>'' @
          ''  out float4 o_col0 : SV_Target0)\<newline>'' @
          fill_fragment_body"]) simp
  from shader depth cbuffer
  show "\<exists>text. GenerateFillFragmentShader sg gl = Inr text \<and>
         sublist ''  out float o_depth : SV_Depth'' text \<and>
         sublist ''cbuffer UBOBlock : register(b0)'' text"
    by blast
next
  assume gen: "ShaderGen Vulkan dsb gl = Inr (vk, logged')"
  then have vk: "vk = \<lparr>m_render_api = Vulkan, m_glsl = True,
       m_supports_dual_source_blend = dsb, m_use_glsl_interface_blocks = True,
       m_use_glsl_binding_layout = True, m_glsl_version_string = []\<rparr>"
    by (simp add: ShaderGen_Vulkan)
  let ?shader = "WriteHeader vk gl @
          ''layout(push_constant) uniform PushConstants\<newline>'' @
          ''{\<newline>'' @
          ''float4 u_fill_color;\<newline>'' @
          ''};\<newline>'' @
          ''\<newline>'' @
          ''layout(location = 0) in VertexData {\<newline>'' @
          ''  float2 v_tex0;\<newline>'' @
          ''};\<newline>'' @
          ''#define o_depth gl_FragDepth\<newline>'' @
          (if dsb then ''layout(location = 0, index = 0) out float4 o_col0;\<newline>''
           else ''layout(location = 00) out float4 o_col0;\<newline>'') @
          ''\<newline>'' @
          ''void main()\<newline>'' @
          fill_fragment_body"
  have shader: "GenerateFillFragmentShader vk gl = Inr ?shader"
    unfolding vk by (rule GenerateFillFragmentShader_Vulkan)
  have push: "sublist ''layout(push_constant) uniform PushConstants'' ?shader"
    unfolding sublist_def
    by (rule exI[of _ "WriteHeader vk gl"],
        rule exI[of _ "''\<newline>'' @
          ''{\<newline>'' @
          ''float4 u_fill_color;\<newline>'' @
          ''};\<newline>'' @
          ''\<newline>'' @
          ''layout(location = 0) in VertexData {\<newline>'' @
          ''  float2 v_tex0;\<newline>'' @
          ''};\<newline>'' @
          ''#define o_depth gl_FragDepth\<newline>'' @
          (if dsb then ''layout(location = 0, index = 0) out float4 o_col0;\<newline>''
           else ''layout(location = 00) out float4 o_col0;\<newline>'') @
          ''\<newline>'' @
          ''void main()\<newline>'' @
          fill_fragment_body"]) simp
  have "ends_line ?shader \<and> \<not> sublist ''binding'' ?shader"
    unfolding vk fill_fragment_body_def
    by (intro lacks_append lacks_if WriteHeader_Vulkan_lacks glsl_shim_lacks_binding;
        simp add: eval_lacks)
  with shader push
  show "\<exists>text. GenerateFillFragmentShader vk gl = Inr text \<and>
         sublist ''layout(push_constant) uniform PushConstants'' text \<and>
         \<not> sublist ''binding'' text"
    by blast
qed

theorem GenerateFillFragmentShader_backends_witness:
  "\<forall>dsb gl.
     (case ShaderGen D3D11 dsb gl of
        Inl e \<Rightarrow> False
      | Inr (sg, logged) \<Rightarrow>
          (case GenerateFillFragmentShader sg gl of
             Inl e \<Rightarrow> False
           | Inr shader \<Rightarrow>
               sublist ''  out float o_depth : SV_Depth'' shader \<and>
               sublist ''cbuffer UBOBlock : register(b0)'' shader)) \<and>
     (case ShaderGen Vulkan dsb gl of
        Inl e \<Rightarrow> False
      | Inr (vk, logged) \<Rightarrow>
          (case GenerateFillFragmentShader vk gl of
             Inl e \<Rightarrow> False
           | Inr shader \<Rightarrow>
               sublist ''layout(push_constant) uniform PushConstants'' shader \<and>
               \<not> sublist ''binding'' shader))"
proof (intro allI conjI)
  fix dsb :: bool and gl :: gl_context
  show "case ShaderGen D3D11 dsb gl of
        Inl e \<Rightarrow> False
      | Inr (sg, logged) \<Rightarrow>
          (case GenerateFillFragmentShader sg gl of
             Inl e \<Rightarrow> False
           | Inr shader \<Rightarrow>
               sublist ''  out float o_depth : SV_Depth'' shader \<and>
               sublist ''cbuffer UBOBlock : register(b0)'' shader)"
    using GenerateFillFragmentShader_backends[THEN conjunct1, rule_format,
            OF ShaderGen_D3D11, of dsb gl]
    by (auto simp: ShaderGen_D3D11)
  show "case ShaderGen Vulkan dsb gl of
        Inl e \<Rightarrow> False
      | Inr (vk, logged) \<Rightarrow>
          (case GenerateFillFragmentShader vk gl of
             Inl e \<Rightarrow> False
           | Inr shader \<Rightarrow>
               sublist ''layout(push_constant) uniform PushConstants'' shader \<and>
               \<not> sublist ''binding'' shader)"
    using GenerateFillFragmentShader_backends[THEN conjunct2, rule_format,
            OF ShaderGen_Vulkan, of dsb gl]
    by (auto simp: ShaderGen_Vulkan)
qed

end
